theory Spec2Isabelle
  imports Complex_Main "HOL-Library.Word"
begin

unbundle bit_operations_syntax

section \<open>The host type system, as \<open>from-type.ts\<close> reads it\<close>

text \<open>
  \<open>fromType\<close> walks a graph of \<open>ts.Type\<close> objects owned by the TypeScript checker.
  The graph may contain cycles, so a type is referred to by its identity (\<open>TypeRef\<close>) and
  its fields are read through the checker (\<open>typeAt\<close>). Strings are lists of code units.
\<close>

type_synonym TypeRef = nat
type_synonym Node = nat

text \<open>
  The values a literal type carries in \<open>type.value\<close> and the values a literal schema node
  holds. \<open>PseudoBigInt\<close> is the only one for which \<open>typeof\<close> answers \<open>'object'\<close>.
\<close>

datatype JsValue =
    JsString string
  | JsNumber real
  | JsBoolean bool
  | JsBigInt int
  | PseudoBigInt (negative: bool) (base10Value: string)

fun typeof_object :: "JsValue \<Rightarrow> bool" where
  "typeof_object (PseudoBigInt n d) = True"
| "typeof_object v = False"

record Symbol =
  name :: string
  symbolFlags :: "32 word"
  symbolId :: nat

record Signature =
  getParameters :: "Symbol list"
  signatureId :: nat

record Type =
  flags :: "32 word"
  isLiteral :: bool
  literalValue :: JsValue
  objectFlags :: "32 word"
  target :: TypeRef
  getProperties :: "Symbol list"
  getCallSignatures :: "Signature list"
  getSymbol :: "Symbol option"
  isUnion :: bool
  isIntersection :: bool
  types :: "TypeRef list"

record TypeChecker =
  typeAt :: "TypeRef \<Rightarrow> Type"
  getTypeOfSymbolAtLocation :: "Symbol \<Rightarrow> Node \<Rightarrow> TypeRef"
  getReturnTypeOfSignature :: "Signature \<Rightarrow> TypeRef"
  getTypeArguments :: "TypeRef \<Rightarrow> TypeRef list"
  typeToString :: "TypeRef \<Rightarrow> string"

subsection \<open>The flag constants of the compiler API\<close>

text \<open>
  The members of \<open>ts.TypeFlags\<close>, \<open>ts.ObjectFlags\<close> and \<open>ts.SymbolFlags\<close> that the source
  names, with the values the TypeScript compiler API declares for them. Each is a single bit.
\<close>

definition TypeFlags_Any :: "32 word" where "TypeFlags_Any = 1"
definition TypeFlags_Unknown :: "32 word" where "TypeFlags_Unknown = 2"
definition TypeFlags_String :: "32 word" where "TypeFlags_String = 4"
definition TypeFlags_Number :: "32 word" where "TypeFlags_Number = 8"
definition TypeFlags_Boolean :: "32 word" where "TypeFlags_Boolean = 16"
definition TypeFlags_BigInt :: "32 word" where "TypeFlags_BigInt = 64"
definition TypeFlags_Object :: "32 word" where "TypeFlags_Object = 524288"

definition ObjectFlags_Reference :: "32 word" where "ObjectFlags_Reference = 4"
definition ObjectFlags_Tuple :: "32 word" where "ObjectFlags_Tuple = 8"

definition SymbolFlags_Optional :: "32 word" where "SymbolFlags_Optional = 16777216"

definition hasFlag :: "Type \<Rightarrow> 32 word \<Rightarrow> bool" where
  "hasFlag type flag = ((flags type AND flag) = flag)"

definition hasSymbolFlag :: "Symbol \<Rightarrow> 32 word \<Rightarrow> bool" where
  "hasSymbolFlag symbol flag = ((symbolFlags symbol AND flag) = flag)"

definition hasObjectFlag :: "Type \<Rightarrow> 32 word \<Rightarrow> bool" where
  "hasObjectFlag type flag = ((objectFlags type AND flag) = flag)"

section \<open>Schema nodes\<close>

text \<open>
  Modelled from the spec: the builders of \<open>@onetyped/core\<close> that the source imports
  (\<open>string\<close>, \<open>number\<close>, \<open>boolean\<close>, \<open>unknown\<close>, \<open>any\<close>, \<open>bigint\<close>, \<open>literal\<close>, \<open>date\<close>,
  \<open>array\<close>, \<open>set\<close>, \<open>record\<close>, \<open>map\<close>, \<open>tuple\<close>, \<open>object\<close>, \<open>func\<close>, \<open>union\<close>,
  \<open>intersection\<close>, \<open>optional\<close>) are not part of the source file. Each builds an immutable
  node of its variant from the children it is given, so a node is the builder that was called
  together with its arguments: one constructor per builder. \<open>object\<close> receives a JavaScript
  object, kept here as its list of entries.
\<close>

datatype AnyNode =
    StringNode
  | NumberNode
  | BooleanNode
  | UnknownNode
  | AnyTypeNode
  | BigIntNode
  | LiteralNode JsValue
  | DateNode
  | ArrayNode AnyNode
  | SetNode AnyNode
  | RecordNode AnyNode AnyNode
  | MapNode AnyNode AnyNode
  | TupleNode "AnyNode list"
  | ObjectNode "(string \<times> AnyNode) list"
  | FuncNode "AnyNode list" AnyNode
  | UnionNode "AnyNode list"
  | IntersectionNode "AnyNode list"
  | OptionalNode AnyNode

section \<open>Outcomes of a call\<close>

text \<open>
  A call returns a value, throws, or is still running when the recursion budget is used up.
  \<open>Error msg\<close> is \<open>throw new Error(msg)\<close>; \<open>TypeError\<close> is what reading a property of
  \<open>undefined\<close> throws; \<open>SyntaxError\<close> is what \<open>BigInt\<close> throws on a string it cannot parse.
\<close>

datatype JsError = Error string | TypeError | SyntaxError

datatype 'a Completion = Returns 'a | Throws JsError | OutOfFuel

fun andThen :: "'a Completion \<Rightarrow> ('a \<Rightarrow> 'b Completion) \<Rightarrow> 'b Completion" where
  "andThen (Returns x) k = k x"
| "andThen (Throws e) k = Throws e"
| "andThen OutOfFuel k = OutOfFuel"

text \<open>\<open>Array.prototype.map\<close> with a callback that may throw: elements are visited in order
  and the first callback that does not return ends the loop.\<close>

fun array_map :: "('a \<Rightarrow> 'b Completion) \<Rightarrow> 'a list \<Rightarrow> 'b list Completion" where
  "array_map f [] = Returns []"
| "array_map f (x # xs) =
     andThen (f x) (\<lambda>y. andThen (array_map f xs) (\<lambda>ys. Returns (y # ys)))"

text \<open>\<open>.filter(Boolean)\<close> on an array of nodes and \<open>undefined\<close>: nodes are objects, hence
  truthy, so exactly the \<open>undefined\<close> entries are dropped.\<close>

fun filter_Boolean :: "'a option list \<Rightarrow> 'a list" where
  "filter_Boolean [] = []"
| "filter_Boolean (None # xs) = filter_Boolean xs"
| "filter_Boolean (Some x # xs) = x # filter_Boolean xs"

text \<open>\<open>xs[i]\<close> on a JavaScript array: \<open>undefined\<close> out of range.\<close>

definition at_index :: "'a list \<Rightarrow> nat \<Rightarrow> 'a option" where
  "at_index xs i = (if i < length xs then Some (xs ! i) else None)"

subsection \<open>\<open>BigInt(string)\<close>\<close>

text \<open>
  The conversion of a string to a big integer: surrounding white space is ignored, the empty
  string is zero, a decimal numeral may carry one sign, and the prefixes \<open>0x\<close>, \<open>0o\<close>, \<open>0b\<close>
  (unsigned) select another radix. Anything else is a \<open>SyntaxError\<close>.
\<close>

definition digitValue :: "char \<Rightarrow> nat option" where
  "digitValue c =
     (let k = (of_char c :: nat) in
      if 48 \<le> k \<and> k \<le> 57 then Some (k - 48)
      else if 97 \<le> k \<and> k \<le> 102 then Some (k - 87)
      else if 65 \<le> k \<and> k \<le> 70 then Some (k - 55)
      else None)"

fun digits_value :: "nat \<Rightarrow> nat \<Rightarrow> string \<Rightarrow> nat option" where
  "digits_value radix acc [] = Some acc"
| "digits_value radix acc (c # cs) =
     (case digitValue c of
        None \<Rightarrow> None
      | Some d \<Rightarrow> if d < radix then digits_value radix (acc * radix + d) cs else None)"

definition numeral_value :: "nat \<Rightarrow> string \<Rightarrow> nat option" where
  "numeral_value radix ds = (if ds = [] then None else digits_value radix 0 ds)"

definition isWhiteSpace :: "char \<Rightarrow> bool" where
  "isWhiteSpace c = ((of_char c :: nat) \<in> {9, 10, 11, 12, 13, 32, 160})"

definition trimString :: "string \<Rightarrow> string" where
  "trimString s = rev (dropWhile isWhiteSpace (rev (dropWhile isWhiteSpace s)))"

definition StringToBigInt :: "string \<Rightarrow> int option" where
  "StringToBigInt s =
     (let t = trimString s in
      if t = [] then Some 0
      else if take 2 t \<in> {''0x'', ''0X''} then map_option int (numeral_value 16 (drop 2 t))
      else if take 2 t \<in> {''0o'', ''0O''} then map_option int (numeral_value 8 (drop 2 t))
      else if take 2 t \<in> {''0b'', ''0B''} then map_option int (numeral_value 2 (drop 2 t))
      else if hd t = CHR ''-'' then map_option (\<lambda>n. - int n) (numeral_value 10 (tl t))
      else if hd t = CHR ''+'' then map_option int (numeral_value 10 (tl t))
      else map_option int (numeral_value 10 t))"

definition BigInt :: "string \<Rightarrow> int Completion" where
  "BigInt s = (case StringToBigInt s of None \<Rightarrow> Throws SyntaxError | Some i \<Rightarrow> Returns i)"

subsection \<open>Objects\<close>

text \<open>
  A JavaScript object is kept as the list of its entries in the order in which the object
  enumerates its own keys: first the keys that are array indices (the canonical decimal
  numerals of the integers from 0 to 4294967294) in ascending numeric order, then the other
  keys in the order of their creation. Writing a key that is already present replaces its
  value and keeps its place among the created keys; a new key is created after the existing
  ones. \<open>Object.fromEntries\<close> writes each entry to a new object in turn.
\<close>

fun set_property :: "(string \<times> 'v) list \<Rightarrow> string \<Rightarrow> 'v \<Rightarrow> (string \<times> 'v) list" where
  "set_property [] k v = [(k, v)]"
| "set_property ((k', v') # obj) k v =
     (if k' = k then (k, v) # obj else (k', v') # set_property obj k v)"

definition arrayIndex :: "string \<Rightarrow> nat option" where
  "arrayIndex k =
     (case numeral_value 10 k of
        None \<Rightarrow> None
      | Some n \<Rightarrow>
          if (k = ''0'' \<or> hd k \<noteq> CHR ''0'') \<and> n < 4294967295 then Some n else None)"

definition integerLike :: "string \<times> 'v \<Rightarrow> bool" where
  "integerLike e = (arrayIndex (fst e) \<noteq> None)"

definition indexOf :: "string \<times> 'v \<Rightarrow> nat" where
  "indexOf e = (case arrayIndex (fst e) of None \<Rightarrow> 0 | Some n \<Rightarrow> n)"

definition ownEntries :: "(string \<times> 'v) list \<Rightarrow> (string \<times> 'v) list" where
  "ownEntries created =
     sort_key indexOf (filter integerLike created)
     @ filter (\<lambda>e. \<not> integerLike e) created"

definition Object_fromEntries :: "(string \<times> 'v) list \<Rightarrow> (string \<times> 'v) list" where
  "Object_fromEntries entries =
     ownEntries (foldl (\<lambda>obj (k, v). set_property obj k v) [] entries)"

section \<open>The classifier\<close>

text \<open>
  \<open>fromType\<close> and \<open>getNodeFromCallSignatures\<close> call each other. The first argument bounds the
  nesting of \<open>fromType\<close> calls: the source has no such bound, and a call that would nest
  deeper is \<open>OutOfFuel\<close>. The type argument is \<open>None\<close> when the caller passes \<open>undefined\<close>
  (an index past the end of the type-argument list); the first flag test then reads
  \<open>type.flags\<close> of \<open>undefined\<close>.
\<close>

function fromType ::
    "nat \<Rightarrow> TypeRef option \<Rightarrow> Node \<Rightarrow> TypeChecker \<Rightarrow> AnyNode Completion"
  and getNodeFromCallSignatures ::
    "nat \<Rightarrow> Signature list \<Rightarrow> Node \<Rightarrow> TypeChecker \<Rightarrow> AnyNode option Completion"
where
  "fromType 0 ty locationNode checker = OutOfFuel"
| "fromType (Suc fuel) None locationNode checker = Throws TypeError"
| "fromType (Suc fuel) (Some r) locationNode checker =
    (let type = typeAt checker r in
     if hasFlag type TypeFlags_String then Returns StringNode
     else if hasFlag type TypeFlags_Number then Returns NumberNode
     else if hasFlag type TypeFlags_Boolean then Returns BooleanNode
     else if hasFlag type TypeFlags_Unknown then Returns UnknownNode
     else if isLiteral type then
       (if typeof_object (literalValue type) then
          andThen
            (BigInt ((if negative (literalValue type) then ''-'' else '''')
                     @ base10Value (literalValue type)))
            (\<lambda>bigIntLiteral. Returns (LiteralNode (JsBigInt bigIntLiteral)))
        else Returns (LiteralNode (literalValue type)))
     else if hasFlag type TypeFlags_Any then Returns AnyTypeNode
     else if hasFlag type TypeFlags_BigInt then Returns BigIntNode
     else if hasFlag type TypeFlags_Object then
       (if hasObjectFlag type ObjectFlags_Reference
           \<and> hasObjectFlag (typeAt checker (target type)) ObjectFlags_Tuple then
          andThen
            (array_map
               (\<lambda>property.
                  if name property = ''length'' then Returns None
                  else
                    andThen
                      (fromType fuel
                         (Some (getTypeOfSymbolAtLocation checker property locationNode))
                         locationNode checker)
                      (\<lambda>node.
                         Returns (Some (if hasSymbolFlag property SymbolFlags_Optional
                                        then OptionalNode node else node))))
               (getProperties type))
            (\<lambda>tupleTypes. Returns (TupleNode (filter_Boolean tupleTypes)))
        else
          andThen
            (array_map
               (\<lambda>property.
                  andThen
                    (fromType fuel
                       (Some (getTypeOfSymbolAtLocation checker property locationNode))
                       locationNode checker)
                    (\<lambda>node.
                       Returns (name property,
                                if hasSymbolFlag property SymbolFlags_Optional
                                then OptionalNode node else node)))
               (getProperties type))
            (\<lambda>propertyEntries.
               andThen
                 (getNodeFromCallSignatures fuel (getCallSignatures type) locationNode checker)
                 (\<lambda>functionNode.
                    case functionNode of
                      Some fn \<Rightarrow>
                        if length propertyEntries = 0 then Returns fn
                        else Returns (IntersectionNode
                                        [fn, ObjectNode (Object_fromEntries propertyEntries)])
                    | None \<Rightarrow> Returns (ObjectNode (Object_fromEntries propertyEntries)))))
     else
       (case getSymbol type of
          Some symbol \<Rightarrow>
            (if name symbol = ''Array'' \<or> name symbol = ''ReadonlyArray'' then
               andThen
                 (fromType fuel (at_index (getTypeArguments checker r) 0) locationNode checker)
                 (\<lambda>element. Returns (ArrayNode element))
             else if name symbol = ''Date'' then Returns DateNode
             else if name symbol = ''Set'' then
               andThen
                 (fromType fuel (at_index (getTypeArguments checker r) 0) locationNode checker)
                 (\<lambda>element. Returns (SetNode element))
             else if name symbol = ''Record'' then
               andThen
                 (fromType fuel (at_index (getTypeArguments checker r) 0) locationNode checker)
                 (\<lambda>k. andThen
                    (fromType fuel (at_index (getTypeArguments checker r) 1)
                       locationNode checker)
                    (\<lambda>v. Returns (RecordNode k v)))
             else if name symbol = ''Map'' then
               andThen
                 (fromType fuel (at_index (getTypeArguments checker r) 0) locationNode checker)
                 (\<lambda>k. andThen
                    (fromType fuel (at_index (getTypeArguments checker r) 1)
                       locationNode checker)
                    (\<lambda>v. Returns (MapNode k v)))
             else Throws (Error (''Unknown symbol name: '' @ name symbol)))
        | None \<Rightarrow>
            if isUnion type then
              andThen
                (array_map (\<lambda>unionType. fromType fuel (Some unionType) locationNode checker)
                   (types type))
                (\<lambda>unionTypes. Returns (UnionNode unionTypes))
            else if isIntersection type then
              andThen
                (array_map (\<lambda>t. fromType fuel (Some t) locationNode checker) (types type))
                (\<lambda>intersectionTypes. Returns (IntersectionNode intersectionTypes))
            else Throws (Error (''Unknown type: '' @ typeToString checker r))))"
| "getNodeFromCallSignatures fuel callSignatures locationNode checker =
    (if length callSignatures > 0 then
       andThen
         (array_map
            (\<lambda>signature.
               andThen
                 (array_map
                    (\<lambda>parameter.
                       fromType fuel
                         (Some (getTypeOfSymbolAtLocation checker parameter locationNode))
                         locationNode checker)
                    (getParameters signature))
                 (\<lambda>parameters.
                    andThen
                      (fromType fuel (Some (getReturnTypeOfSignature checker signature))
                         locationNode checker)
                      (\<lambda>returnNode. Returns (FuncNode parameters returnNode))))
            callSignatures)
         (\<lambda>nodeCallSignatures.
            if length nodeCallSignatures = 1 then Returns (Some (nodeCallSignatures ! 0))
            else Returns (Some (UnionNode nodeCallSignatures)))
     else Returns None)"
  by pat_completeness auto
termination
  by (relation "measure (\<lambda>x. case x of Inl (fuel, _) \<Rightarrow> 2 * fuel
                                       | Inr (fuel, _) \<Rightarrow> 2 * fuel + 1)") auto

section \<open>The documented dispatch order\<close>

text \<open>
  The capabilities of a type descriptor that the classifier tests, and the priority order in
  which the specification lists them. \<open>firstMatch\<close> is the first capability of that list
  that a type has.
\<close>

datatype Capability =
    IsString | IsNumber | IsBoolean | IsUnknown | IsLiteral | IsAny | IsBigInt
  | IsObject | HasSymbol | IsUnion | IsIntersection

fun has_capability :: "Type \<Rightarrow> Capability \<Rightarrow> bool" where
  "has_capability type IsString = hasFlag type TypeFlags_String"
| "has_capability type IsNumber = hasFlag type TypeFlags_Number"
| "has_capability type IsBoolean = hasFlag type TypeFlags_Boolean"
| "has_capability type IsUnknown = hasFlag type TypeFlags_Unknown"
| "has_capability type IsLiteral = isLiteral type"
| "has_capability type IsAny = hasFlag type TypeFlags_Any"
| "has_capability type IsBigInt = hasFlag type TypeFlags_BigInt"
| "has_capability type IsObject = hasFlag type TypeFlags_Object"
| "has_capability type HasSymbol = (getSymbol type \<noteq> None)"
| "has_capability type IsUnion = isUnion type"
| "has_capability type IsIntersection = isIntersection type"

definition documentedOrder :: "Capability list" where
  "documentedOrder =
     [IsString, IsNumber, IsBoolean, IsUnknown, IsLiteral, IsAny, IsBigInt,
      IsObject, HasSymbol, IsUnion, IsIntersection]"

definition firstMatch :: "Type \<Rightarrow> Capability option" where
  "firstMatch type = find (has_capability type) documentedOrder"

fun primitiveNode :: "Capability \<Rightarrow> AnyNode option" where
  "primitiveNode IsString = Some StringNode"
| "primitiveNode IsNumber = Some NumberNode"
| "primitiveNode IsBoolean = Some BooleanNode"
| "primitiveNode IsUnknown = Some UnknownNode"
| "primitiveNode IsAny = Some AnyTypeNode"
| "primitiveNode IsBigInt = Some BigIntNode"
| "primitiveNode cap = None"

text \<open>A type descriptor stripped of every capability, and one that keeps a single one.\<close>

definition clearCapabilities :: "Type \<Rightarrow> Type" where
  "clearCapabilities type =
     type\<lparr>flags := 0, isLiteral := False, getSymbol := None,
          isUnion := False, isIntersection := False\<rparr>"

fun keepOnly :: "Capability \<Rightarrow> Type \<Rightarrow> Type" where
  "keepOnly IsString type = (clearCapabilities type)\<lparr>flags := TypeFlags_String\<rparr>"
| "keepOnly IsNumber type = (clearCapabilities type)\<lparr>flags := TypeFlags_Number\<rparr>"
| "keepOnly IsBoolean type = (clearCapabilities type)\<lparr>flags := TypeFlags_Boolean\<rparr>"
| "keepOnly IsUnknown type = (clearCapabilities type)\<lparr>flags := TypeFlags_Unknown\<rparr>"
| "keepOnly IsLiteral type = (clearCapabilities type)\<lparr>isLiteral := True\<rparr>"
| "keepOnly IsAny type = (clearCapabilities type)\<lparr>flags := TypeFlags_Any\<rparr>"
| "keepOnly IsBigInt type = (clearCapabilities type)\<lparr>flags := TypeFlags_BigInt\<rparr>"
| "keepOnly IsObject type = (clearCapabilities type)\<lparr>flags := TypeFlags_Object\<rparr>"
| "keepOnly HasSymbol type = (clearCapabilities type)\<lparr>getSymbol := getSymbol type\<rparr>"
| "keepOnly IsUnion type = (clearCapabilities type)\<lparr>isUnion := True\<rparr>"
| "keepOnly IsIntersection type = (clearCapabilities type)\<lparr>isIntersection := True\<rparr>"

definition firstMatchOnly :: "Type \<Rightarrow> Type" where
  "firstMatchOnly type =
     (case firstMatch type of
        None \<Rightarrow> clearCapabilities type
      | Some cap \<Rightarrow> keepOnly cap type)"

section \<open>The type graph\<close>

text \<open>
  The constituent types of a type descriptor under the rule that its first capability
  selects: member property types, parameter and return types of call signatures, type
  arguments, union and intersection members. An entry is \<open>None\<close> where a named generic has
  fewer type arguments than its rule reads.
\<close>

definition isTupleReference :: "TypeChecker \<Rightarrow> Type \<Rightarrow> bool" where
  "isTupleReference checker type =
     (hasObjectFlag type ObjectFlags_Reference
      \<and> hasObjectFlag (typeAt checker (target type)) ObjectFlags_Tuple)"

definition isOptional :: "Symbol \<Rightarrow> bool" where
  "isOptional property = hasSymbolFlag property SymbolFlags_Optional"

definition wrapOptional :: "Symbol \<Rightarrow> AnyNode \<Rightarrow> AnyNode" where
  "wrapOptional property node = (if isOptional property then OptionalNode node else node)"

definition propertyType :: "TypeChecker \<Rightarrow> Node \<Rightarrow> Symbol \<Rightarrow> TypeRef option" where
  "propertyType checker locationNode property =
     Some (getTypeOfSymbolAtLocation checker property locationNode)"

definition returnType :: "TypeChecker \<Rightarrow> Signature \<Rightarrow> TypeRef option" where
  "returnType checker signature = Some (getReturnTypeOfSignature checker signature)"

definition signatureTypes :: "TypeChecker \<Rightarrow> Node \<Rightarrow> Signature \<Rightarrow> TypeRef option list" where
  "signatureTypes checker locationNode signature =
     map (propertyType checker locationNode) (getParameters signature)
     @ [returnType checker signature]"

definition symbolName :: "Type \<Rightarrow> string" where
  "symbolName type = (case getSymbol type of None \<Rightarrow> [] | Some symbol \<Rightarrow> name symbol)"


definition constituents :: "TypeChecker \<Rightarrow> Node \<Rightarrow> TypeRef \<Rightarrow> TypeRef option list" where
  "constituents checker locationNode r =
     (let type = typeAt checker r; args = getTypeArguments checker r in
      case firstMatch type of
        Some IsObject \<Rightarrow>
          if isTupleReference checker type then
            map (propertyType checker locationNode)
              (filter (\<lambda>p. name p \<noteq> ''length'') (getProperties type))
          else
            map (propertyType checker locationNode) (getProperties type)
            @ concat (map (signatureTypes checker locationNode) (getCallSignatures type))
      | Some HasSymbol \<Rightarrow>
          if symbolName type \<in> {''Array'', ''ReadonlyArray'', ''Set''} then [at_index args 0]
          else if symbolName type \<in> {''Record'', ''Map''} then [at_index args 0, at_index args 1]
          else []
      | Some IsUnion \<Rightarrow> map Some (types type)
      | Some IsIntersection \<Rightarrow> map Some (types type)
      | _ \<Rightarrow> [])"


text \<open>The failures that a type's own rule raises, as opposed to those of its constituents.\<close>

definition unknownSymbolError :: "Type \<Rightarrow> JsError" where
  "unknownSymbolError type = Error (''Unknown symbol name: '' @ symbolName type)"

definition unknownTypeError :: "TypeChecker \<Rightarrow> TypeRef \<Rightarrow> JsError" where
  "unknownTypeError checker r = Error (''Unknown type: '' @ typeToString checker r)"



text \<open>The value of a string of decimal digits, most significant digit first.\<close>

definition isDecimalDigit :: "char \<Rightarrow> bool" where
  "isDecimalDigit c = (48 \<le> (of_char c :: nat) \<and> (of_char c :: nat) \<le> 57)"

definition decimalValue :: "string \<Rightarrow> int" where
  "decimalValue ds =
     (\<Sum>i < length ds. int (of_char (ds ! i) - 48) * 10 ^ (length ds - 1 - i))"


text \<open>\<open>visitsOnly n P\<close>: every type within \<open>n\<close> levels below this one satisfies \<open>P\<close>.\<close>

fun visitsOnly ::
    "nat \<Rightarrow> TypeChecker \<Rightarrow> Node \<Rightarrow> (TypeRef \<Rightarrow> bool) \<Rightarrow> TypeRef option \<Rightarrow> bool" where
  "visitsOnly 0 checker locationNode P ty = True"
| "visitsOnly (Suc n) checker locationNode P None = True"
| "visitsOnly (Suc n) checker locationNode P (Some r) =
     (P r \<and> (\<forall>t \<in> set (constituents checker locationNode r).
               visitsOnly n checker locationNode P t))"

text \<open>
  The output invariant of the specification: tuple, union and intersection nodes have at
  least one element, at every level of the node.
\<close>

fun nonEmptyElements :: "AnyNode \<Rightarrow> bool" where
  "nonEmptyElements (TupleNode es) = (es \<noteq> [] \<and> (\<forall>e \<in> set es. nonEmptyElements e))"
| "nonEmptyElements (UnionNode es) = (es \<noteq> [] \<and> (\<forall>e \<in> set es. nonEmptyElements e))"
| "nonEmptyElements (IntersectionNode es) =
     (es \<noteq> [] \<and> (\<forall>e \<in> set es. nonEmptyElements e))"
| "nonEmptyElements (ArrayNode e) = nonEmptyElements e"
| "nonEmptyElements (SetNode e) = nonEmptyElements e"
| "nonEmptyElements (OptionalNode e) = nonEmptyElements e"
| "nonEmptyElements (RecordNode k v) = (nonEmptyElements k \<and> nonEmptyElements v)"
| "nonEmptyElements (MapNode k v) = (nonEmptyElements k \<and> nonEmptyElements v)"
| "nonEmptyElements (ObjectNode entries) = (\<forall>e \<in> set entries. nonEmptyElements (snd e))"
| "nonEmptyElements (FuncNode args ret) =
     ((\<forall>e \<in> set args. nonEmptyElements e) \<and> nonEmptyElements ret)"
| "nonEmptyElements node = True"

text \<open>A type whose rule builds a tuple, union or intersection from at least one element.\<close>

definition hasElements :: "TypeChecker \<Rightarrow> TypeRef \<Rightarrow> bool" where
  "hasElements checker r =
     (let type = typeAt checker r in
      case firstMatch type of
        Some IsObject \<Rightarrow>
          isTupleReference checker type \<longrightarrow>
            filter (\<lambda>p. name p \<noteq> ''length'') (getProperties type) \<noteq> []
      | Some IsUnion \<Rightarrow> types type \<noteq> []
      | Some IsIntersection \<Rightarrow> types type \<noteq> []
      | _ \<Rightarrow> True)"

text \<open>The entries of the object node, given the node of each member property.\<close>

definition propertyEntriesOf ::
    "(Symbol \<Rightarrow> AnyNode) \<Rightarrow> Symbol list \<Rightarrow> (string \<times> AnyNode) list" where
  "propertyEntriesOf propertyNode ps =
     map (\<lambda>p. (name p, wrapOptional p (propertyNode p))) ps"

text \<open>The function node that a call signature yields, given the nodes of its parts.\<close>

definition functionNodeOf ::
    "(Symbol \<Rightarrow> AnyNode) \<Rightarrow> (Signature \<Rightarrow> AnyNode) \<Rightarrow> Signature \<Rightarrow> AnyNode" where
  "functionNodeOf argNode returnNode s = FuncNode (map argNode (getParameters s)) (returnNode s)"


section \<open>An example program\<close>

text \<open>
  A checker over a small program, used to run the classifier on concrete types. In this
  program the symbol with identity \<open>k\<close> is declared with type \<open>k\<close>, and the signature with
  identity \<open>k\<close> returns type \<open>k\<close>.
\<close>

definition plainType :: Type where
  "plainType =
     \<lparr>flags = 0, isLiteral = False, literalValue = JsBoolean False, objectFlags = 0,
      target = 0, getProperties = [], getCallSignatures = [], getSymbol = None,
      isUnion = False, isIntersection = False, types = []\<rparr>"

definition property :: "string \<Rightarrow> TypeRef \<Rightarrow> Symbol" where
  "property n t = \<lparr>name = n, symbolFlags = 4, symbolId = t\<rparr>"

definition optionalProperty :: "string \<Rightarrow> TypeRef \<Rightarrow> Symbol" where
  "optionalProperty n t = \<lparr>name = n, symbolFlags = 16777220, symbolId = t\<rparr>"

definition declaredName :: "string \<Rightarrow> Symbol" where
  "declaredName n = \<lparr>name = n, symbolFlags = 262144, symbolId = 0\<rparr>"

definition callSignature :: "Symbol list \<Rightarrow> TypeRef \<Rightarrow> Signature" where
  "callSignature ps t = \<lparr>getParameters = ps, signatureId = t\<rparr>"

definition exampleTypes :: "TypeRef \<Rightarrow> Type" where
  "exampleTypes =
     (\<lambda>r. plainType)
     (0 := plainType\<lparr>flags := 4\<rparr>,
      1 := plainType\<lparr>flags := 8\<rparr>,
      2 := plainType\<lparr>flags := 524288, objectFlags := 16,
             getProperties := [property ''a'' 0, optionalProperty ''b'' 1]\<rparr>,
      3 := plainType\<lparr>flags := 524288, objectFlags := 4, target := 4,
             getProperties := [property ''0'' 0, optionalProperty ''1'' 1,
                               property ''length'' 1]\<rparr>,
      4 := plainType\<lparr>flags := 524288, objectFlags := 12, target := 4\<rparr>,
      5 := plainType\<lparr>flags := 524288, objectFlags := 16,
             getProperties := [property ''a'' 0],
             getCallSignatures := [callSignature [property ''x'' 0] 1]\<rparr>,
      6 := plainType\<lparr>flags := 524288, objectFlags := 16,
             getCallSignatures := [callSignature [property ''x'' 0] 1]\<rparr>,
      7 := plainType\<lparr>flags := 524288, objectFlags := 16,
             getCallSignatures := [callSignature [property ''x'' 0] 1,
                                   callSignature [property ''x'' 1, property ''y'' 0] 0]\<rparr>,
      8 := plainType\<lparr>getSymbol := Some (declaredName ''Array'')\<rparr>,
      9 := plainType\<lparr>flags := 1048576, isUnion := True, types := [10, 11]\<rparr>,
      10 := plainType\<lparr>flags := 128, isLiteral := True, literalValue := JsString ''x''\<rparr>,
      11 := plainType\<lparr>flags := 128, isLiteral := True, literalValue := JsString ''y''\<rparr>,
      12 := plainType\<lparr>flags := 2048, isLiteral := True,
              literalValue := PseudoBigInt True ''123''\<rparr>,
      13 := plainType\<lparr>getSymbol := Some (declaredName ''Map'')\<rparr>,
      14 := plainType\<lparr>flags := 16384\<rparr>,
      15 := plainType\<lparr>flags := 262144, getSymbol := Some (declaredName ''Foo'')\<rparr>,
      16 := plainType\<lparr>flags := 262144, getSymbol := Some (declaredName ''Array'')\<rparr>,
      17 := plainType\<lparr>flags := 524288, objectFlags := 2,
              getProperties := [property ''next'' 17]\<rparr>,
      18 := plainType\<lparr>flags := 524288, objectFlags := 4, target := 19,
              getProperties := [property ''length'' 1]\<rparr>,
      19 := plainType\<lparr>flags := 524288, objectFlags := 12, target := 19\<rparr>,
      20 := plainType\<lparr>flags := 262144, getSymbol := Some (declaredName ''Record'')\<rparr>,
      21 := plainType\<lparr>flags := 1\<rparr>,
      22 := plainType\<lparr>getSymbol := Some (declaredName ''Date'')\<rparr>,
      23 := plainType\<lparr>flags := 2097152, isIntersection := True, types := [2, 6]\<rparr>,
      24 := plainType\<lparr>flags := 524288, objectFlags := 16,
              getProperties := [property ''a'' 0, property ''bad'' 14]\<rparr>,
      25 := plainType\<lparr>flags := 1048592, isUnion := True, types := [26, 27]\<rparr>,
      26 := plainType\<lparr>flags := 512\<rparr>,
      27 := plainType\<lparr>flags := 512\<rparr>,
      28 := plainType\<lparr>flags := 524288, objectFlags := 16,
              getProperties := [property ''b'' 0, property ''1'' 0, property ''a'' 0]\<rparr>)"

definition exampleTypeArguments :: "TypeRef \<Rightarrow> TypeRef list" where
  "exampleTypeArguments = (\<lambda>r. [])(8 := [0], 13 := [0, 1], 20 := [0], 22 := [0])"

definition exampleChecker :: TypeChecker where
  "exampleChecker =
     \<lparr>typeAt = exampleTypes,
      getTypeOfSymbolAtLocation = (\<lambda>symbol locationNode. symbolId symbol),
      getReturnTypeOfSignature = signatureId,
      getTypeArguments = exampleTypeArguments,
      typeToString = (\<lambda>r. if r = 14 then ''void'' else ''type'')\<rparr>"



section \<open>Properties of the classifier\<close>

subsection \<open>Outcomes\<close>

lemma andThen_Returns_iff:
  "andThen m k = Returns y \<longleftrightarrow> (\<exists>x. m = Returns x \<and> k x = Returns y)"
  by (cases m) simp_all



lemma array_map_Returns:
  "(\<And>x. x \<in> set xs \<Longrightarrow> f x = Returns (g x)) \<Longrightarrow> array_map f xs = Returns (map g xs)"
  by (induction xs) simp_all


lemma array_map_Returns_length:
  "array_map f xs = Returns ys \<Longrightarrow> length ys = length xs"
  by (induction xs arbitrary: ys) (auto simp: andThen_Returns_iff)

lemma array_map_Returns_member:
  "array_map f xs = Returns ys \<Longrightarrow> y \<in> set ys \<Longrightarrow> \<exists>x \<in> set xs. f x = Returns y"
  by (induction xs arbitrary: ys) (auto simp: andThen_Returns_iff)



subsection \<open>The dispatch, rule by rule\<close>

lemma firstMatch_chain: "firstMatch type = (if hasFlag type TypeFlags_String then Some IsString else
  if hasFlag type TypeFlags_Number then Some IsNumber else
  if hasFlag type TypeFlags_Boolean then Some IsBoolean else
  if hasFlag type TypeFlags_Unknown then Some IsUnknown else
  if isLiteral type then Some IsLiteral else
  if hasFlag type TypeFlags_Any then Some IsAny else
  if hasFlag type TypeFlags_BigInt then Some IsBigInt else
  if hasFlag type TypeFlags_Object then Some IsObject else
  if getSymbol type \<noteq> None then Some HasSymbol else
  if isUnion type then Some IsUnion else
  if isIntersection type then Some IsIntersection else None)"
  by (simp add: firstMatch_def documentedOrder_def)

lemma firstMatch_iff:
  "firstMatch T = Some IsString \<longleftrightarrow> hasFlag T TypeFlags_String"
  "firstMatch T = Some IsNumber \<longleftrightarrow>
     \<not> hasFlag T TypeFlags_String \<and> hasFlag T TypeFlags_Number"
  "firstMatch T = Some IsBoolean \<longleftrightarrow>
     \<not> hasFlag T TypeFlags_String \<and> \<not> hasFlag T TypeFlags_Number
     \<and> hasFlag T TypeFlags_Boolean"
  "firstMatch T = Some IsUnknown \<longleftrightarrow>
     \<not> hasFlag T TypeFlags_String \<and> \<not> hasFlag T TypeFlags_Number
     \<and> \<not> hasFlag T TypeFlags_Boolean \<and> hasFlag T TypeFlags_Unknown"
  "firstMatch T = Some IsLiteral \<longleftrightarrow>
     \<not> hasFlag T TypeFlags_String \<and> \<not> hasFlag T TypeFlags_Number
     \<and> \<not> hasFlag T TypeFlags_Boolean \<and> \<not> hasFlag T TypeFlags_Unknown \<and> isLiteral T"
  "firstMatch T = Some IsAny \<longleftrightarrow>
     \<not> hasFlag T TypeFlags_String \<and> \<not> hasFlag T TypeFlags_Number
     \<and> \<not> hasFlag T TypeFlags_Boolean \<and> \<not> hasFlag T TypeFlags_Unknown \<and> \<not> isLiteral T
     \<and> hasFlag T TypeFlags_Any"
  "firstMatch T = Some IsBigInt \<longleftrightarrow>
     \<not> hasFlag T TypeFlags_String \<and> \<not> hasFlag T TypeFlags_Number
     \<and> \<not> hasFlag T TypeFlags_Boolean \<and> \<not> hasFlag T TypeFlags_Unknown \<and> \<not> isLiteral T
     \<and> \<not> hasFlag T TypeFlags_Any \<and> hasFlag T TypeFlags_BigInt"
  "firstMatch T = Some IsObject \<longleftrightarrow>
     \<not> hasFlag T TypeFlags_String \<and> \<not> hasFlag T TypeFlags_Number
     \<and> \<not> hasFlag T TypeFlags_Boolean \<and> \<not> hasFlag T TypeFlags_Unknown \<and> \<not> isLiteral T
     \<and> \<not> hasFlag T TypeFlags_Any \<and> \<not> hasFlag T TypeFlags_BigInt
     \<and> hasFlag T TypeFlags_Object"
  "firstMatch T = Some HasSymbol \<longleftrightarrow>
     \<not> hasFlag T TypeFlags_String \<and> \<not> hasFlag T TypeFlags_Number
     \<and> \<not> hasFlag T TypeFlags_Boolean \<and> \<not> hasFlag T TypeFlags_Unknown \<and> \<not> isLiteral T
     \<and> \<not> hasFlag T TypeFlags_Any \<and> \<not> hasFlag T TypeFlags_BigInt
     \<and> \<not> hasFlag T TypeFlags_Object \<and> getSymbol T \<noteq> None"
  "firstMatch T = Some IsUnion \<longleftrightarrow>
     \<not> hasFlag T TypeFlags_String \<and> \<not> hasFlag T TypeFlags_Number
     \<and> \<not> hasFlag T TypeFlags_Boolean \<and> \<not> hasFlag T TypeFlags_Unknown \<and> \<not> isLiteral T
     \<and> \<not> hasFlag T TypeFlags_Any \<and> \<not> hasFlag T TypeFlags_BigInt
     \<and> \<not> hasFlag T TypeFlags_Object \<and> getSymbol T = None \<and> isUnion T"
  "firstMatch T = Some IsIntersection \<longleftrightarrow>
     \<not> hasFlag T TypeFlags_String \<and> \<not> hasFlag T TypeFlags_Number
     \<and> \<not> hasFlag T TypeFlags_Boolean \<and> \<not> hasFlag T TypeFlags_Unknown \<and> \<not> isLiteral T
     \<and> \<not> hasFlag T TypeFlags_Any \<and> \<not> hasFlag T TypeFlags_BigInt
     \<and> \<not> hasFlag T TypeFlags_Object \<and> getSymbol T = None \<and> \<not> isUnion T
     \<and> isIntersection T"
  "firstMatch T = None \<longleftrightarrow>
     \<not> hasFlag T TypeFlags_String \<and> \<not> hasFlag T TypeFlags_Number
     \<and> \<not> hasFlag T TypeFlags_Boolean \<and> \<not> hasFlag T TypeFlags_Unknown \<and> \<not> isLiteral T
     \<and> \<not> hasFlag T TypeFlags_Any \<and> \<not> hasFlag T TypeFlags_BigInt
     \<and> \<not> hasFlag T TypeFlags_Object \<and> getSymbol T = None \<and> \<not> isUnion T
     \<and> \<not> isIntersection T"
  by (simp_all add: firstMatch_chain)

lemma firstMatch_cases:
  obtains (Primitive) cap node where "firstMatch T = Some cap" and "primitiveNode cap = Some node"
  | (Literal) "firstMatch T = Some IsLiteral"
  | (Object) "firstMatch T = Some IsObject"
  | (Symbol) symbol where "firstMatch T = Some HasSymbol" and "getSymbol T = Some symbol"
  | (Union) "firstMatch T = Some IsUnion"
  | (Intersection) "firstMatch T = Some IsIntersection"
  | (Unmatched) "firstMatch T = None"
proof (cases "firstMatch T")
  case None
  then show ?thesis by (rule Unmatched)
next
  case (Some cap)
  show ?thesis
  proof (cases cap)
    case HasSymbol
    with Some obtain symbol where "getSymbol T = Some symbol"
      by (auto simp: firstMatch_iff)
    with Some HasSymbol show ?thesis by (auto intro: Symbol)
  next
    case IsLiteral with Some show ?thesis by (auto intro: Literal)
  next
    case IsObject with Some show ?thesis by (auto intro: Object)
  next
    case IsUnion with Some show ?thesis by (auto intro: Union)
  next
    case IsIntersection with Some show ?thesis by (auto intro: Intersection)
  qed (use Some in \<open>auto intro: Primitive\<close>)
qed

lemma fromType_Primitive:
  "firstMatch (typeAt c r) = Some cap \<Longrightarrow> primitiveNode cap = Some node
   \<Longrightarrow> fromType (Suc n) (Some r) l c = Returns node"
  by (cases cap) (simp_all add: firstMatch_iff Let_def)

lemma fromType_Literal:
  "firstMatch (typeAt c r) = Some IsLiteral \<Longrightarrow>
   fromType (Suc n) (Some r) l c =
     (if typeof_object (literalValue (typeAt c r)) then
        andThen
          (BigInt ((if negative (literalValue (typeAt c r)) then ''-'' else [])
                   @ base10Value (literalValue (typeAt c r))))
          (\<lambda>i. Returns (LiteralNode (JsBigInt i)))
      else Returns (LiteralNode (literalValue (typeAt c r))))"
  by (simp add: firstMatch_iff Let_def)

lemma fromType_Tuple:
  "firstMatch (typeAt c r) = Some IsObject \<Longrightarrow> isTupleReference c (typeAt c r) \<Longrightarrow>
   fromType (Suc n) (Some r) l c =
     andThen
       (array_map
          (\<lambda>p. if name p = ''length'' then Returns None
               else andThen (fromType n (propertyType c l p) l c)
                      (\<lambda>node. Returns (Some (wrapOptional p node))))
          (getProperties (typeAt c r)))
       (\<lambda>tupleTypes. Returns (TupleNode (filter_Boolean tupleTypes)))"
  by (simp add: firstMatch_iff Let_def isTupleReference_def propertyType_def
      wrapOptional_def isOptional_def cong: if_cong)

lemma fromType_Object:
  "firstMatch (typeAt c r) = Some IsObject \<Longrightarrow> \<not> isTupleReference c (typeAt c r) \<Longrightarrow>
   fromType (Suc n) (Some r) l c =
     andThen
       (array_map
          (\<lambda>p. andThen (fromType n (propertyType c l p) l c)
                 (\<lambda>node. Returns (name p, wrapOptional p node)))
          (getProperties (typeAt c r)))
       (\<lambda>propertyEntries.
          andThen (getNodeFromCallSignatures n (getCallSignatures (typeAt c r)) l c)
            (\<lambda>functionNode.
               case functionNode of
                 Some fn \<Rightarrow>
                   if propertyEntries = [] then Returns fn
                   else Returns (IntersectionNode
                                   [fn, ObjectNode (Object_fromEntries propertyEntries)])
               | None \<Rightarrow> Returns (ObjectNode (Object_fromEntries propertyEntries))))"
  by (cases "hasObjectFlag (typeAt c r) ObjectFlags_Reference")
     (simp_all add: firstMatch_iff Let_def isTupleReference_def propertyType_def
        wrapOptional_def isOptional_def del: getNodeFromCallSignatures.simps cong: if_cong)

lemma fromType_Symbol:
  "firstMatch (typeAt c r) = Some HasSymbol \<Longrightarrow>
   fromType (Suc n) (Some r) l c =
     (if symbolName (typeAt c r) = ''Array'' \<or> symbolName (typeAt c r) = ''ReadonlyArray'' then
        andThen (fromType n (at_index (getTypeArguments c r) 0) l c)
          (\<lambda>element. Returns (ArrayNode element))
      else if symbolName (typeAt c r) = ''Date'' then Returns DateNode
      else if symbolName (typeAt c r) = ''Set'' then
        andThen (fromType n (at_index (getTypeArguments c r) 0) l c)
          (\<lambda>element. Returns (SetNode element))
      else if symbolName (typeAt c r) = ''Record'' then
        andThen (fromType n (at_index (getTypeArguments c r) 0) l c)
          (\<lambda>k. andThen (fromType n (at_index (getTypeArguments c r) 1) l c)
                 (\<lambda>v. Returns (RecordNode k v)))
      else if symbolName (typeAt c r) = ''Map'' then
        andThen (fromType n (at_index (getTypeArguments c r) 0) l c)
          (\<lambda>k. andThen (fromType n (at_index (getTypeArguments c r) 1) l c)
                 (\<lambda>v. Returns (MapNode k v)))
      else Throws (unknownSymbolError (typeAt c r)))"
proof -
  assume a: "firstMatch (typeAt c r) = Some HasSymbol"
  then obtain symbol where s: "getSymbol (typeAt c r) = Some symbol"
    by (auto simp: firstMatch_iff)
  then have n: "symbolName (typeAt c r) = name symbol"
    by (simp add: symbolName_def)
  from a s show ?thesis
    unfolding n unknownSymbolError_def n
    by (simp add: firstMatch_iff Let_def)
qed

lemma fromType_Union:
  "firstMatch (typeAt c r) = Some IsUnion \<Longrightarrow>
   fromType (Suc n) (Some r) l c =
     andThen (array_map (\<lambda>t. fromType n (Some t) l c) (types (typeAt c r)))
       (\<lambda>unionTypes. Returns (UnionNode unionTypes))"
  by (simp add: firstMatch_iff Let_def)

lemma fromType_Intersection:
  "firstMatch (typeAt c r) = Some IsIntersection \<Longrightarrow>
   fromType (Suc n) (Some r) l c =
     andThen (array_map (\<lambda>t. fromType n (Some t) l c) (types (typeAt c r)))
       (\<lambda>intersectionTypes. Returns (IntersectionNode intersectionTypes))"
  by (simp add: firstMatch_iff Let_def)

lemma fromType_Unmatched:
  "firstMatch (typeAt c r) = None \<Longrightarrow>
   fromType (Suc n) (Some r) l c = Throws (unknownTypeError c r)"
  by (simp add: firstMatch_iff Let_def unknownTypeError_def)

lemma getNodeFromCallSignatures_eq:
  "getNodeFromCallSignatures n sigs l c =
     (if sigs = [] then Returns None
      else andThen
        (array_map
           (\<lambda>s. andThen
                  (array_map (\<lambda>p. fromType n (propertyType c l p) l c) (getParameters s))
                  (\<lambda>parameters.
                     andThen (fromType n (returnType c s) l c)
                       (\<lambda>returnNode. Returns (FuncNode parameters returnNode))))
           sigs)
        (\<lambda>nodes. if length nodes = 1 then Returns (Some (nodes ! 0))
                  else Returns (Some (UnionNode nodes))))"
  by (simp add: propertyType_def returnType_def)

declare fromType.simps(3) [simp del]
declare getNodeFromCallSignatures.simps [simp del]

subsection \<open>The constituents, rule by rule\<close>

lemma constituents_Tuple:
  "firstMatch (typeAt c r) = Some IsObject \<Longrightarrow> isTupleReference c (typeAt c r) \<Longrightarrow>
   constituents c l r =
     map (propertyType c l) (filter (\<lambda>p. name p \<noteq> ''length'') (getProperties (typeAt c r)))"
  by (simp add: constituents_def Let_def)

lemma constituents_Object:
  "firstMatch (typeAt c r) = Some IsObject \<Longrightarrow> \<not> isTupleReference c (typeAt c r) \<Longrightarrow>
   constituents c l r =
     map (propertyType c l) (getProperties (typeAt c r))
     @ concat (map (signatureTypes c l) (getCallSignatures (typeAt c r)))"
  by (simp add: constituents_def Let_def)

lemma constituents_Symbol:
  "firstMatch (typeAt c r) = Some HasSymbol \<Longrightarrow>
   constituents c l r =
     (if symbolName (typeAt c r) \<in> {''Array'', ''ReadonlyArray'', ''Set''}
      then [at_index (getTypeArguments c r) 0]
      else if symbolName (typeAt c r) \<in> {''Record'', ''Map''}
      then [at_index (getTypeArguments c r) 0, at_index (getTypeArguments c r) 1]
      else [])"
  by (simp add: constituents_def Let_def)

lemma constituents_Union:
  "firstMatch (typeAt c r) = Some IsUnion \<or> firstMatch (typeAt c r) = Some IsIntersection \<Longrightarrow>
   constituents c l r = map Some (types (typeAt c r))"
  by (auto simp: constituents_def Let_def)




subsection \<open>What a returned, thrown or unfinished call says about the constituents\<close>









subsection \<open>A larger budget never changes a finished outcome\<close>










subsection \<open>Decimal numerals through \<open>BigInt\<close>\<close>

lemma decimalValue_Nil: "decimalValue [] = 0"
  by (simp add: decimalValue_def)

lemma decimalValue_Cons:
  "decimalValue (ch # cs) = int (of_char ch - 48) * 10 ^ length cs + decimalValue cs"
  unfolding decimalValue_def length_Cons sum.lessThan_Suc_shift by simp

lemma decimalValue_nonneg: "0 \<le> decimalValue ds"
  by (simp add: decimalValue_def sum_nonneg)

lemma digitValue_decimal:
  "isDecimalDigit ch \<Longrightarrow> digitValue ch = Some (of_char ch - 48) \<and> (of_char ch :: nat) - 48 < 10"
  by (auto simp: isDecimalDigit_def digitValue_def Let_def)

lemma digits_value_decimal:
  "\<forall>ch \<in> set ds. isDecimalDigit ch \<Longrightarrow>
   map_option int (digits_value 10 acc ds) = Some (int acc * 10 ^ length ds + decimalValue ds)"
proof (induction ds arbitrary: acc)
  case Nil
  show ?case by (simp add: decimalValue_Nil)
next
  case (Cons ch cs)
  from Cons.prems have d: "digitValue ch = Some (of_char ch - 48)" "(of_char ch :: nat) - 48 < 10"
    and rest: "\<forall>ch \<in> set cs. isDecimalDigit ch"
    by (simp_all add: digitValue_decimal)
  from Cons.IH [OF rest, of "acc * 10 + (of_char ch - 48)"] d show ?case
    by (simp add: decimalValue_Cons algebra_simps)
qed

lemma decimal_digit_plain:
  "isDecimalDigit ch \<Longrightarrow>
   \<not> isWhiteSpace ch \<and> ch \<noteq> CHR ''-'' \<and> ch \<noteq> CHR ''+'' \<and> ch \<noteq> CHR ''x'' \<and> ch \<noteq> CHR ''X''
   \<and> ch \<noteq> CHR ''o'' \<and> ch \<noteq> CHR ''O'' \<and> ch \<noteq> CHR ''b'' \<and> ch \<noteq> CHR ''B''"
  by (auto simp: isDecimalDigit_def isWhiteSpace_def)

lemma trimString_plain:
  assumes "s \<noteq> []" and "\<not> isWhiteSpace (hd s)" and "\<not> isWhiteSpace (last s)"
  shows "trimString s = s"
proof -
  from assms(1,2) have "dropWhile isWhiteSpace s = s"
    by (cases s) simp_all
  moreover from assms(1,3) have "dropWhile isWhiteSpace (rev s) = rev s"
    by (cases "rev s") (simp_all add: hd_rev [symmetric] del: rev_is_Nil_conv)
  ultimately show ?thesis by (simp add: trimString_def)
qed

lemma StringToBigInt_decimal:
  assumes "ds \<noteq> []" and "\<forall>ch \<in> set ds. isDecimalDigit ch"
  shows "StringToBigInt ds = Some (decimalValue ds)"
    and "StringToBigInt (''-'' @ ds) = Some (- decimalValue ds)"
proof -
  from assms have first: "isDecimalDigit (hd ds)" and final: "isDecimalDigit (last ds)"
    by simp_all
  note p = decimal_digit_plain [OF first] decimal_digit_plain [OF final]
  have t1: "trimString ds = ds"
    using assms(1) p by (intro trimString_plain) simp_all
  have t2: "trimString (''-'' @ ds) = ''-'' @ ds"
    using assms(1) p by (intro trimString_plain) (simp_all add: isWhiteSpace_def)
  have no_prefix: "take 2 ds \<notin> {''0x'', ''0X'', ''0o'', ''0O'', ''0b'', ''0B''}"
  proof (cases ds)
    case Nil
    with assms(1) show ?thesis by simp
  next
    case (Cons d cs)
    show ?thesis
    proof (cases cs)
      case Nil
      with Cons show ?thesis by simp
    next
      case (Cons e es)
      with assms(2) \<open>ds = d # cs\<close> have "isDecimalDigit e" by simp
      from decimal_digit_plain [OF this] Cons \<open>ds = d # cs\<close> show ?thesis by simp
    qed
  qed
  from digits_value_decimal [OF assms(2), of 0]
  have v: "map_option int (digits_value 10 0 ds) = Some (decimalValue ds)" by simp
  have "StringToBigInt ds = map_option int (numeral_value 10 ds)"
    unfolding StringToBigInt_def Let_def t1
    using assms(1) no_prefix p(1) by simp
  with v assms(1) show "StringToBigInt ds = Some (decimalValue ds)"
    by (simp add: numeral_value_def)
  have "StringToBigInt (''-'' @ ds) = map_option (\<lambda>n. - int n) (numeral_value 10 ds)"
    unfolding StringToBigInt_def Let_def t2
    using assms(1) by simp
  also have "\<dots> = map_option uminus (map_option int (digits_value 10 0 ds))"
    using assms(1) by (simp add: numeral_value_def option.map_comp comp_def)
  finally show "StringToBigInt (''-'' @ ds) = Some (- decimalValue ds)"
    by (simp add: v)
qed

subsection \<open>Objects, tuples and signatures\<close>

lemmas example_defs =
  exampleChecker_def exampleTypes_def exampleTypeArguments_def plainType_def property_def
  optionalProperty_def declaredName_def callSignature_def Let_def
  hasFlag_def hasObjectFlag_def hasSymbolFlag_def
  TypeFlags_Any_def TypeFlags_Unknown_def TypeFlags_String_def TypeFlags_Number_def
  TypeFlags_Boolean_def TypeFlags_BigInt_def TypeFlags_Object_def
  ObjectFlags_Reference_def ObjectFlags_Tuple_def SymbolFlags_Optional_def
  at_index_def Object_fromEntries_def ownEntries_def integerLike_def indexOf_def
  arrayIndex_def numeral_value_def digitValue_def firstMatch_chain isTupleReference_def
  propertyType_def returnType_def signatureTypes_def symbolName_def wrapOptional_def
  isOptional_def constituents_def fromType.simps getNodeFromCallSignatures.simps

lemma set_property_fresh:
  "k \<notin> fst ` set obj \<Longrightarrow> set_property obj k v = obj @ [(k, v)]"
  by (induction obj) auto

lemma foldl_set_property_distinct:
  "distinct (map fst (obj @ es)) \<Longrightarrow>
   foldl (\<lambda>obj (k, v). set_property obj k v) obj es = obj @ es"
proof (induction es arbitrary: obj)
  case Nil
  show ?case by simp
next
  case (Cons e es)
  obtain k v where e: "e = (k, v)" by (cases e)
  from Cons.prems have fresh: "k \<notin> fst ` set obj" by (auto simp: e)
  from Cons.prems have "distinct (map fst ((obj @ [(k, v)]) @ es))" by (simp add: e)
  from Cons.IH [OF this] show ?case by (simp add: e set_property_fresh [OF fresh])
qed

lemma Object_fromEntries_distinct:
  "distinct (map fst es) \<Longrightarrow> Object_fromEntries es = ownEntries es"
  using foldl_set_property_distinct [of "[]" es] by (simp add: Object_fromEntries_def)

lemma ownEntries_integerLike:
  "filter integerLike (ownEntries es) = sort_key indexOf (filter integerLike es)"
  by (simp add: ownEntries_def filter_sort)

lemma ownEntries_others:
  "filter (\<lambda>e. \<not> integerLike e) (ownEntries es) = filter (\<lambda>e. \<not> integerLike e) es"
  by (simp add: ownEntries_def filter_sort)

lemma ownEntries_split:
  "ownEntries es
     = filter integerLike (ownEntries es) @ filter (\<lambda>e. \<not> integerLike e) (ownEntries es)"
  unfolding ownEntries_integerLike ownEntries_others by (simp add: ownEntries_def)

lemma ownEntries_sorted: "sorted (map indexOf (filter integerLike (ownEntries es)))"
  by (simp add: ownEntries_integerLike)

lemma ownEntries_set: "set (ownEntries es) = set es"
  by (auto simp: ownEntries_def)

lemma ownEntries_length: "length (ownEntries es) = length es"
  by (simp add: ownEntries_def sum_length_filter_compl)

lemma ownEntries_plain: "\<forall>e \<in> set es. \<not> integerLike e \<Longrightarrow> ownEntries es = es"
  by (simp add: ownEntries_def)

lemma array_map_wrap_Returns:
  "(\<And>p. p \<in> set ps \<Longrightarrow> g p = Returns (e p)) \<Longrightarrow>
   array_map (\<lambda>p. andThen (g p) (\<lambda>node. Returns (h p node))) ps
     = Returns (map (\<lambda>p. h p (e p)) ps)"
  by (induction ps) simp_all

lemma filter_Boolean_map:
  "filter_Boolean (map (\<lambda>p. if skip p then None else Some (f p)) ps)
     = map f (filter (\<lambda>p. \<not> skip p) ps)"
  by (induction ps) simp_all

lemma array_map_skip_Returns:
  "(\<And>p. p \<in> set ps \<Longrightarrow> \<not> skip p \<Longrightarrow> g p = Returns (e p)) \<Longrightarrow>
   array_map (\<lambda>p. if skip p then Returns None
                   else andThen (g p) (\<lambda>node. Returns (Some (h p node)))) ps
     = Returns (map (\<lambda>p. if skip p then None else Some (h p (e p))) ps)"
  by (induction ps) simp_all

lemma array_map_skip_length:
  "array_map (\<lambda>p. if skip p then Returns None
                   else andThen (g p) (\<lambda>node. Returns (Some (h p node)))) ps = Returns ys
   \<Longrightarrow> length (filter_Boolean ys) = length (filter (\<lambda>p. \<not> skip p) ps)"
  by (induction ps arbitrary: ys) (auto simp: andThen_Returns_iff split: if_splits)

text \<open>
  C1 (as amended). A type handled by the composite object rule that is not a tuple
  reference, whose member properties classify to the nodes \<open>propertyNode\<close>: without call
  signatures the result is \<open>object\<close> of the property map; with call signatures and no
  property it is the signature converter's result itself; with call signatures and
  properties it is \<open>intersection([signatureResult, object(propertyMap)])\<close>. The property map
  is a JavaScript object written from the properties in the order reported, each node
  wrapped in \<open>optional\<close> when flagged. The member names being distinct, it holds every
  property once; the properties whose names are array indices come first, in ascending
  numeric order, and the other properties follow in the order reported. When no name is an
  array index the map has the properties in the order reported.
\<close>

theorem object_rule_combines_properties_and_signatures:
  assumes "firstMatch (typeAt c r) = Some IsObject"
    and "\<not> isTupleReference c (typeAt c r)"
    and "\<forall>p \<in> set (getProperties (typeAt c r)).
           fromType n (propertyType c l p) l c = Returns (propertyNode p)"
  shows "(getCallSignatures (typeAt c r) = [] \<longrightarrow>
            fromType (Suc n) (Some r) l c =
              Returns (ObjectNode (Object_fromEntries
                (propertyEntriesOf propertyNode (getProperties (typeAt c r))))))
       \<and> (\<forall>signatureResult.
            getCallSignatures (typeAt c r) \<noteq> []
            \<and> getNodeFromCallSignatures n (getCallSignatures (typeAt c r)) l c
                = Returns (Some signatureResult) \<longrightarrow>
            (getProperties (typeAt c r) = [] \<longrightarrow>
               fromType (Suc n) (Some r) l c = Returns signatureResult)
            \<and> (getProperties (typeAt c r) \<noteq> [] \<longrightarrow>
               fromType (Suc n) (Some r) l c =
                 Returns (IntersectionNode
                   [signatureResult,
                    ObjectNode (Object_fromEntries
                      (propertyEntriesOf propertyNode (getProperties (typeAt c r))))])))
       \<and> (distinct (map name (getProperties (typeAt c r))) \<longrightarrow>
            (let entries = propertyEntriesOf propertyNode (getProperties (typeAt c r));
                 obj = Object_fromEntries entries
             in obj = filter integerLike obj @ filter (\<lambda>e. \<not> integerLike e) obj
                \<and> sorted (map indexOf (filter integerLike obj))
                \<and> filter (\<lambda>e. \<not> integerLike e) obj = filter (\<lambda>e. \<not> integerLike e) entries
                \<and> set obj = set entries
                \<and> length obj = length entries))
       \<and> (distinct (map name (getProperties (typeAt c r)))
            \<and> (\<forall>p \<in> set (getProperties (typeAt c r)). arrayIndex (name p) = None) \<longrightarrow>
            Object_fromEntries (propertyEntriesOf propertyNode (getProperties (typeAt c r)))
              = propertyEntriesOf propertyNode (getProperties (typeAt c r)))"
proof -
  let ?entries = "propertyEntriesOf propertyNode (getProperties (typeAt c r))"
  have entries:
    "array_map
       (\<lambda>p. andThen (fromType n (propertyType c l p) l c)
              (\<lambda>node. Returns (name p, wrapOptional p node)))
       (getProperties (typeAt c r))
     = Returns ?entries"
    unfolding propertyEntriesOf_def
    using assms(3) by (intro array_map_wrap_Returns) simp
  note eq = fromType_Object [OF assms(1,2), of n l, unfolded entries]
  have none: "getNodeFromCallSignatures n [] l c = Returns None"
    by (simp add: getNodeFromCallSignatures_eq)
  have own: "Object_fromEntries ?entries = ownEntries ?entries"
    if "distinct (map name (getProperties (typeAt c r)))"
    using that by (intro Object_fromEntries_distinct) (simp add: propertyEntriesOf_def comp_def)
  have plain: "\<forall>e \<in> set ?entries. \<not> integerLike e"
    if "\<forall>p \<in> set (getProperties (typeAt c r)). arrayIndex (name p) = None"
    using that by (auto simp: propertyEntriesOf_def integerLike_def)
  show ?thesis
  proof (intro conjI impI allI)
    assume "getCallSignatures (typeAt c r) = []"
    then show "fromType (Suc n) (Some r) l c = Returns (ObjectNode (Object_fromEntries ?entries))"
      by (simp add: eq none)
  next
    fix signatureResult
    assume a: "getCallSignatures (typeAt c r) \<noteq> []
            \<and> getNodeFromCallSignatures n (getCallSignatures (typeAt c r)) l c
                = Returns (Some signatureResult)"
    {
      assume "getProperties (typeAt c r) = []"
      with a show "fromType (Suc n) (Some r) l c = Returns signatureResult"
        by (simp add: eq propertyEntriesOf_def)
    }
    assume "getProperties (typeAt c r) \<noteq> []"
    with a show "fromType (Suc n) (Some r) l c =
                 Returns (IntersectionNode
                   [signatureResult, ObjectNode (Object_fromEntries ?entries)])"
      by (simp add: eq propertyEntriesOf_def)
  next
    assume "distinct (map name (getProperties (typeAt c r)))"
    from own [OF this] ownEntries_split [of ?entries] ownEntries_sorted [of ?entries]
      ownEntries_others [of ?entries] ownEntries_set [of ?entries]
      ownEntries_length [of ?entries]
    show "let entries = ?entries; obj = Object_fromEntries entries
          in obj = filter integerLike obj @ filter (\<lambda>e. \<not> integerLike e) obj
             \<and> sorted (map indexOf (filter integerLike obj))
             \<and> filter (\<lambda>e. \<not> integerLike e) obj = filter (\<lambda>e. \<not> integerLike e) entries
             \<and> set obj = set entries
             \<and> length obj = length entries"
      by (simp only: Let_def)
  next
    assume "distinct (map name (getProperties (typeAt c r)))
            \<and> (\<forall>p \<in> set (getProperties (typeAt c r)). arrayIndex (name p) = None)"
    with own plain show "Object_fromEntries ?entries = ?entries"
      by (simp add: ownEntries_plain)
  qed
qed

theorem object_rule_combines_properties_and_signatures_witness:
  "firstMatch (typeAt exampleChecker 5) = Some IsObject
   \<and> \<not> isTupleReference exampleChecker (typeAt exampleChecker 5)
   \<and> list_all
        (\<lambda>p. fromType (Suc 0) (propertyType exampleChecker 0 p) 0 exampleChecker
                = Returns StringNode)
        (getProperties (typeAt exampleChecker 5))
   \<and> getCallSignatures (typeAt exampleChecker 5) \<noteq> []
   \<and> getNodeFromCallSignatures (Suc 0) (getCallSignatures (typeAt exampleChecker 5))
        0 exampleChecker = Returns (Some (FuncNode [StringNode] NumberNode))
   \<and> getProperties (typeAt exampleChecker 5) \<noteq> []
   \<and> fromType (Suc (Suc 0)) (Some 5) 0 exampleChecker =
       Returns (IntersectionNode
         [FuncNode [StringNode] NumberNode, ObjectNode [(''a'', StringNode)]])"
proof -
  have h1: "firstMatch (typeAt exampleChecker 5) = Some IsObject"
    by (simp add: example_defs)
  have h2: "\<not> isTupleReference exampleChecker (typeAt exampleChecker 5)"
    by (simp add: example_defs)
  have h3: "\<forall>p \<in> set (getProperties (typeAt exampleChecker 5)).
         fromType (Suc 0) (propertyType exampleChecker 0 p) 0 exampleChecker
           = Returns ((\<lambda>p. StringNode) p)"
    by (simp add: example_defs)
  have h4: "getNodeFromCallSignatures (Suc 0) (getCallSignatures (typeAt exampleChecker 5))
        0 exampleChecker = Returns (Some (FuncNode [StringNode] NumberNode))"
    by (simp add: example_defs)
  have h5: "getCallSignatures (typeAt exampleChecker 5) \<noteq> []"
    "getProperties (typeAt exampleChecker 5) \<noteq> []"
    by (simp_all add: example_defs)
  from object_rule_combines_properties_and_signatures [OF h1 h2 h3] h4 h5
  have "fromType (Suc (Suc 0)) (Some 5) 0 exampleChecker =
          Returns (IntersectionNode
            [FuncNode [StringNode] NumberNode,
             ObjectNode (Object_fromEntries
               (propertyEntriesOf (\<lambda>p. StringNode) (getProperties (typeAt exampleChecker 5))))])"
    by blast
  moreover have "Object_fromEntries
               (propertyEntriesOf (\<lambda>p. StringNode) (getProperties (typeAt exampleChecker 5)))
           = [(''a'', StringNode)]"
    by (simp add: example_defs propertyEntriesOf_def)
  ultimately have "fromType (Suc (Suc 0)) (Some 5) 0 exampleChecker =
       Returns (IntersectionNode
         [FuncNode [StringNode] NumberNode, ObjectNode [(''a'', StringNode)]])"
    by (simp only:)
  moreover from h3 have "list_all
        (\<lambda>p. fromType (Suc 0) (propertyType exampleChecker 0 p) 0 exampleChecker
                = Returns StringNode)
        (getProperties (typeAt exampleChecker 5))"
    by (simp only: list_all_iff)
  ultimately show ?thesis using h1 h2 h4 h5 by blast
qed

text \<open>
  C1, the claim as stated, fails on the object type of the example program whose members
  are reported as \<open>b\<close>, \<open>1\<close>, \<open>a\<close>: the property map handed to \<open>object\<close> has the member \<open>1\<close>
  first.
\<close>

theorem object_entries_leave_the_reported_order:
  "firstMatch (typeAt exampleChecker 28) = Some IsObject
   \<and> \<not> isTupleReference exampleChecker (typeAt exampleChecker 28)
   \<and> getCallSignatures (typeAt exampleChecker 28) = []
   \<and> map name (getProperties (typeAt exampleChecker 28)) = [''b'', ''1'', ''a'']
   \<and> fromType (Suc (Suc 0)) (Some 28) 0 exampleChecker
       = Returns (ObjectNode [(''1'', StringNode), (''b'', StringNode), (''a'', StringNode)])"
  by (simp add: example_defs)

text \<open>
  C2. A type handled by the composite object rule that is a reference whose target is a
  tuple: when the member properties other than \<open>length\<close> classify to the nodes
  \<open>elementNode\<close>, the result is \<open>tuple\<close> of exactly those members, in their original order,
  each wrapped in \<open>optional\<close> when flagged. Whatever the members classify to, a result that
  is returned is a tuple node with one element for each member other than \<open>length\<close>: the
  plain-object path is never taken.
\<close>

theorem tuple_reference_yields_tuple_of_members:
  assumes "firstMatch (typeAt c r) = Some IsObject"
    and "isTupleReference c (typeAt c r)"
  shows "((\<forall>p \<in> set (getProperties (typeAt c r)).
             name p \<noteq> ''length'' \<longrightarrow>
             fromType n (propertyType c l p) l c = Returns (elementNode p)) \<longrightarrow>
          fromType (Suc n) (Some r) l c =
            Returns (TupleNode
              (map (\<lambda>p. wrapOptional p (elementNode p))
                 (filter (\<lambda>p. name p \<noteq> ''length'') (getProperties (typeAt c r))))))
       \<and> (\<forall>node. fromType (Suc n) (Some r) l c = Returns node \<longrightarrow>
             (\<exists>elements. node = TupleNode elements
                \<and> length elements =
                    length (filter (\<lambda>p. name p \<noteq> ''length'') (getProperties (typeAt c r)))))"
proof (intro conjI impI allI)
  note eq = fromType_Tuple [OF assms, of n l]
  {
    assume "\<forall>p \<in> set (getProperties (typeAt c r)).
             name p \<noteq> ''length'' \<longrightarrow>
             fromType n (propertyType c l p) l c = Returns (elementNode p)"
    then have
      "array_map
          (\<lambda>p. if name p = ''length'' then Returns None
               else andThen (fromType n (propertyType c l p) l c)
                      (\<lambda>node. Returns (Some (wrapOptional p node))))
          (getProperties (typeAt c r))
       = Returns (map (\<lambda>p. if name p = ''length'' then None
                            else Some (wrapOptional p (elementNode p)))
                    (getProperties (typeAt c r)))"
      by (intro array_map_skip_Returns) simp
    then show "fromType (Suc n) (Some r) l c =
            Returns (TupleNode
              (map (\<lambda>p. wrapOptional p (elementNode p))
                 (filter (\<lambda>p. name p \<noteq> ''length'') (getProperties (typeAt c r)))))"
      by (simp add: eq filter_Boolean_map)
  }
  fix node
  assume "fromType (Suc n) (Some r) l c = Returns node"
  then show "\<exists>elements. node = TupleNode elements
                \<and> length elements =
                    length (filter (\<lambda>p. name p \<noteq> ''length'') (getProperties (typeAt c r)))"
    by (auto simp: eq andThen_Returns_iff dest: array_map_skip_length)
qed

theorem tuple_reference_yields_tuple_of_members_witness:
  "firstMatch (typeAt exampleChecker 3) = Some IsObject
   \<and> isTupleReference exampleChecker (typeAt exampleChecker 3)
   \<and> map name (getProperties (typeAt exampleChecker 3)) = [''0'', ''1'', ''length'']
   \<and> fromType (Suc 0) (Some 0) 0 exampleChecker = Returns StringNode
   \<and> fromType (Suc 0) (Some 1) 0 exampleChecker = Returns NumberNode
   \<and> fromType (Suc (Suc 0)) (Some 3) 0 exampleChecker
       = Returns (TupleNode [StringNode, OptionalNode NumberNode])"
proof -
  have h1: "firstMatch (typeAt exampleChecker 3) = Some IsObject"
    by (simp add: example_defs)
  have h2: "isTupleReference exampleChecker (typeAt exampleChecker 3)"
    by (simp add: example_defs)
  have h3: "\<forall>p \<in> set (getProperties (typeAt exampleChecker 3)).
             name p \<noteq> ''length'' \<longrightarrow>
             fromType (Suc 0) (propertyType exampleChecker 0 p) 0 exampleChecker
               = Returns ((\<lambda>p. if symbolId p = 0 then StringNode else NumberNode) p)"
    by (simp add: example_defs)
  have elements:
    "map (\<lambda>p. wrapOptional p (if symbolId p = 0 then StringNode else NumberNode))
       (filter (\<lambda>p. name p \<noteq> ''length'') (getProperties (typeAt exampleChecker 3)))
     = [StringNode, OptionalNode NumberNode]"
    by (simp add: example_defs)
  from tuple_reference_yields_tuple_of_members
         [OF h1 h2, where n = "Suc 0" and l = 0
            and elementNode = "\<lambda>p. if symbolId p = 0 then StringNode else NumberNode"] h3
  have "fromType (Suc (Suc 0)) (Some 3) 0 exampleChecker =
            Returns (TupleNode
              (map (\<lambda>p. wrapOptional p (if symbolId p = 0 then StringNode else NumberNode))
                 (filter (\<lambda>p. name p \<noteq> ''length'') (getProperties (typeAt exampleChecker 3)))))"
    by blast
  then have result: "fromType (Suc (Suc 0)) (Some 3) 0 exampleChecker
       = Returns (TupleNode [StringNode, OptionalNode NumberNode])"
    by (simp only: elements)
  have "map name (getProperties (typeAt exampleChecker 3)) = [''0'', ''1'', ''length'']"
    "fromType (Suc 0) (Some 0) 0 exampleChecker = Returns StringNode"
    "fromType (Suc 0) (Some 1) 0 exampleChecker = Returns NumberNode"
    by (simp_all add: example_defs)
  with h1 h2 result show ?thesis by blast
qed

text \<open>
  C3. The signature converter returns absent for no signature. When every parameter type
  and the return type of every signature classify to the nodes \<open>argNode\<close> and \<open>returnNode\<close>,
  a single signature yields its function node, built from the argument nodes in parameter
  order and the return node, and more than one signature yields the union of their function
  nodes in signature order.
\<close>

theorem signature_converter_function_or_union:
  "getNodeFromCallSignatures n [] l c = Returns None \<and>
   ((\<forall>s \<in> set sigs.
       (\<forall>p \<in> set (getParameters s). fromType n (propertyType c l p) l c = Returns (argNode p))
       \<and> fromType n (returnType c s) l c = Returns (returnNode s)) \<longrightarrow>
    (\<forall>s. sigs = [s] \<longrightarrow>
       getNodeFromCallSignatures n sigs l c
         = Returns (Some (functionNodeOf argNode returnNode s)))
    \<and> (length sigs > 1 \<longrightarrow>
       getNodeFromCallSignatures n sigs l c =
         Returns (Some (UnionNode (map (functionNodeOf argNode returnNode) sigs)))))"
proof (intro conjI impI)
  show "getNodeFromCallSignatures n [] l c = Returns None"
    by (simp add: getNodeFromCallSignatures_eq)
next
  assume a: "\<forall>s \<in> set sigs.
       (\<forall>p \<in> set (getParameters s). fromType n (propertyType c l p) l c = Returns (argNode p))
       \<and> fromType n (returnType c s) l c = Returns (returnNode s)"
  have "array_map
           (\<lambda>s. andThen
                  (array_map (\<lambda>p. fromType n (propertyType c l p) l c) (getParameters s))
                  (\<lambda>parameters.
                     andThen (fromType n (returnType c s) l c)
                       (\<lambda>returnNode. Returns (FuncNode parameters returnNode))))
           sigs = Returns (map (functionNodeOf argNode returnNode) sigs)"
  proof (rule array_map_Returns)
    fix s assume s: "s \<in> set sigs"
    with a have "array_map (\<lambda>p. fromType n (propertyType c l p) l c) (getParameters s)
                   = Returns (map argNode (getParameters s))"
      by (intro array_map_Returns) simp
    moreover from a s have "fromType n (returnType c s) l c = Returns (returnNode s)"
      by simp
    ultimately show
      "andThen
         (array_map (\<lambda>p. fromType n (propertyType c l p) l c) (getParameters s))
         (\<lambda>parameters.
            andThen (fromType n (returnType c s) l c)
              (\<lambda>returnNode. Returns (FuncNode parameters returnNode)))
       = Returns (functionNodeOf argNode returnNode s)"
      by (simp add: functionNodeOf_def)
  qed
  then have m: "getNodeFromCallSignatures n sigs l c =
           (if sigs = [] then Returns None
            else if length sigs = 1
              then Returns (Some (map (functionNodeOf argNode returnNode) sigs ! 0))
              else Returns (Some (UnionNode (map (functionNodeOf argNode returnNode) sigs))))"
    by (simp add: getNodeFromCallSignatures_eq)
  show "\<forall>s. sigs = [s] \<longrightarrow>
       getNodeFromCallSignatures n sigs l c
         = Returns (Some (functionNodeOf argNode returnNode s))"
    unfolding m by simp
  assume "length sigs > 1"
  then show "getNodeFromCallSignatures n sigs l c =
         Returns (Some (UnionNode (map (functionNodeOf argNode returnNode) sigs)))"
    unfolding m by auto
qed

theorem signature_converter_function_or_union_witness:
  "length (getCallSignatures (typeAt exampleChecker 7)) = 2
   \<and> fromType (Suc 0) (Some 0) 0 exampleChecker = Returns StringNode
   \<and> fromType (Suc 0) (Some 1) 0 exampleChecker = Returns NumberNode
   \<and> getNodeFromCallSignatures (Suc 0) (getCallSignatures (typeAt exampleChecker 7))
        0 exampleChecker
      = Returns (Some (UnionNode [FuncNode [StringNode] NumberNode,
                                  FuncNode [NumberNode, StringNode] StringNode]))"
proof -
  let ?node = "\<lambda>t :: nat. if t = 0 then StringNode else NumberNode"
  have h: "\<forall>s \<in> set (getCallSignatures (typeAt exampleChecker 7)).
       (\<forall>p \<in> set (getParameters s).
           fromType (Suc 0) (propertyType exampleChecker 0 p) 0 exampleChecker
             = Returns ((\<lambda>p. ?node (symbolId p)) p))
       \<and> fromType (Suc 0) (returnType exampleChecker s) 0 exampleChecker
           = Returns ((\<lambda>s. ?node (signatureId s)) s)"
    by (simp add: example_defs)
  have len: "length (getCallSignatures (typeAt exampleChecker 7)) > 1"
    by (simp add: example_defs)
  from signature_converter_function_or_union
         [of "Suc 0" 0 exampleChecker "getCallSignatures (typeAt exampleChecker 7)"
             "\<lambda>p. ?node (symbolId p)" "\<lambda>s. ?node (signatureId s)"] h len
  have "getNodeFromCallSignatures (Suc 0) (getCallSignatures (typeAt exampleChecker 7))
          0 exampleChecker =
         Returns (Some (UnionNode
           (map (functionNodeOf (\<lambda>p. ?node (symbolId p)) (\<lambda>s. ?node (signatureId s)))
              (getCallSignatures (typeAt exampleChecker 7)))))"
    by blast
  moreover have
    "map (functionNodeOf (\<lambda>p. ?node (symbolId p)) (\<lambda>s. ?node (signatureId s)))
       (getCallSignatures (typeAt exampleChecker 7))
     = [FuncNode [StringNode] NumberNode, FuncNode [NumberNode, StringNode] StringNode]"
    by (simp add: example_defs functionNodeOf_def)
  ultimately have
    "getNodeFromCallSignatures (Suc 0) (getCallSignatures (typeAt exampleChecker 7))
        0 exampleChecker
      = Returns (Some (UnionNode [FuncNode [StringNode] NumberNode,
                                  FuncNode [NumberNode, StringNode] StringNode]))"
    by (simp only:)
  moreover have "length (getCallSignatures (typeAt exampleChecker 7)) = 2"
    "fromType (Suc 0) (Some 0) 0 exampleChecker = Returns StringNode"
    "fromType (Suc 0) (Some 1) 0 exampleChecker = Returns NumberNode"
    by (simp_all add: example_defs)
  ultimately show ?thesis by blast
qed

subsection \<open>Named generics, literals and missing type arguments\<close>

text \<open>
  C4. A type handled by the named generic rule: the symbol names \<open>Array\<close> and
  \<open>ReadonlyArray\<close> yield \<open>array\<close> of the node of the first type argument, \<open>Set\<close> yields
  \<open>set\<close> of it, \<open>Record\<close> and \<open>Map\<close> yield \<open>record\<close> and \<open>map\<close> of the nodes of the first and
  second type arguments, and \<open>Date\<close> yields \<open>date\<close> whatever the type arguments are.
\<close>

theorem named_generics_resolve_structurally:
  assumes "firstMatch (typeAt c r) = Some HasSymbol"
  shows "(symbolName (typeAt c r) \<in> {''Array'', ''ReadonlyArray''}
            \<and> fromType n (at_index (getTypeArguments c r) 0) l c = Returns element \<longrightarrow>
          fromType (Suc n) (Some r) l c = Returns (ArrayNode element))
       \<and> (symbolName (typeAt c r) = ''Set''
            \<and> fromType n (at_index (getTypeArguments c r) 0) l c = Returns element \<longrightarrow>
          fromType (Suc n) (Some r) l c = Returns (SetNode element))
       \<and> (symbolName (typeAt c r) = ''Record''
            \<and> fromType n (at_index (getTypeArguments c r) 0) l c = Returns k
            \<and> fromType n (at_index (getTypeArguments c r) 1) l c = Returns v \<longrightarrow>
          fromType (Suc n) (Some r) l c = Returns (RecordNode k v))
       \<and> (symbolName (typeAt c r) = ''Map''
            \<and> fromType n (at_index (getTypeArguments c r) 0) l c = Returns k
            \<and> fromType n (at_index (getTypeArguments c r) 1) l c = Returns v \<longrightarrow>
          fromType (Suc n) (Some r) l c = Returns (MapNode k v))
       \<and> (symbolName (typeAt c r) = ''Date'' \<longrightarrow>
          fromType (Suc n) (Some r) l c = Returns DateNode)"
  by (auto simp: fromType_Symbol [OF assms])

theorem named_generics_resolve_structurally_witness:
  "firstMatch (typeAt exampleChecker 13) = Some HasSymbol
   \<and> symbolName (typeAt exampleChecker 13) = ''Map''
   \<and> fromType (Suc 0) (at_index (getTypeArguments exampleChecker 13) 0) 0 exampleChecker
       = Returns StringNode
   \<and> fromType (Suc 0) (at_index (getTypeArguments exampleChecker 13) 1) 0 exampleChecker
       = Returns NumberNode
   \<and> fromType (Suc (Suc 0)) (Some 13) 0 exampleChecker
       = Returns (MapNode StringNode NumberNode)"
proof -
  have h: "firstMatch (typeAt exampleChecker 13) = Some HasSymbol"
    by (simp add: example_defs)
  have a: "symbolName (typeAt exampleChecker 13) = ''Map''"
    "fromType (Suc 0) (at_index (getTypeArguments exampleChecker 13) 0) 0 exampleChecker
       = Returns StringNode"
    "fromType (Suc 0) (at_index (getTypeArguments exampleChecker 13) 1) 0 exampleChecker
       = Returns NumberNode"
    by (simp_all add: example_defs)
  from named_generics_resolve_structurally
         [OF h, where n = "Suc 0" and l = 0 and k = StringNode and v = NumberNode] a
  have "fromType (Suc (Suc 0)) (Some 13) 0 exampleChecker
          = Returns (MapNode StringNode NumberNode)"
    by blast
  with h a show ?thesis by blast
qed

text \<open>
  C6. A type handled by the literal rule yields \<open>literal\<close> of its value: a string, number
  or boolean value is kept as it is, and a value given as a sign flag and a non-empty string
  of decimal digits becomes the big integer with that sign and that decimal value.
\<close>

theorem literal_value_preserved:
  assumes "firstMatch (typeAt c r) = Some IsLiteral"
  shows "(\<forall>s. literalValue (typeAt c r) = JsString s \<longrightarrow>
            fromType (Suc n) (Some r) l c = Returns (LiteralNode (JsString s)))
       \<and> (\<forall>x. literalValue (typeAt c r) = JsNumber x \<longrightarrow>
            fromType (Suc n) (Some r) l c = Returns (LiteralNode (JsNumber x)))
       \<and> (\<forall>b. literalValue (typeAt c r) = JsBoolean b \<longrightarrow>
            fromType (Suc n) (Some r) l c = Returns (LiteralNode (JsBoolean b)))
       \<and> (\<forall>neg ds. literalValue (typeAt c r) = PseudoBigInt neg ds
              \<and> ds \<noteq> [] \<and> list_all isDecimalDigit ds \<longrightarrow>
            fromType (Suc n) (Some r) l c =
              Returns (LiteralNode
                (JsBigInt (if neg then - decimalValue ds else decimalValue ds))))"
proof -
  have "BigInt ((if neg then ''-'' else []) @ ds)
          = Returns (if neg then - decimalValue ds else decimalValue ds)"
    if "ds \<noteq> []" and "list_all isDecimalDigit ds" for neg ds
    using StringToBigInt_decimal [of ds] that by (simp add: BigInt_def list_all_iff)
  then show ?thesis
    by (auto simp: fromType_Literal [OF assms])
qed

theorem literal_value_preserved_witness:
  "firstMatch (typeAt exampleChecker 12) = Some IsLiteral
   \<and> literalValue (typeAt exampleChecker 12) = PseudoBigInt True ''123''
   \<and> list_all isDecimalDigit ''123''
   \<and> decimalValue ''123'' = 123
   \<and> fromType (Suc 0) (Some 12) 0 exampleChecker = Returns (LiteralNode (JsBigInt (- 123)))"
proof -
  have h: "firstMatch (typeAt exampleChecker 12) = Some IsLiteral"
    by (simp add: example_defs)
  have a: "literalValue (typeAt exampleChecker 12) = PseudoBigInt True ''123''"
    "list_all isDecimalDigit ''123''"
    by (simp_all add: example_defs isDecimalDigit_def)
  have d: "decimalValue ''123'' = 123"
    by (simp add: decimalValue_Cons decimalValue_Nil)
  from literal_value_preserved [OF h, where n = 0 and l = 0] a
  have "fromType (Suc 0) (Some 12) 0 exampleChecker =
          Returns (LiteralNode (JsBigInt (if True then - decimalValue ''123''
                                          else decimalValue ''123'')))"
    by blast
  then have "fromType (Suc 0) (Some 12) 0 exampleChecker
               = Returns (LiteralNode (JsBigInt (- 123)))"
    by (simp only: d if_True)
  with h a d show ?thesis by blast
qed

text \<open>
  C10. The named generic rule reads the type-argument list without looking at its length.
  Reading past the end yields no type (\<open>None\<close>), and the classifier is called on it: the call
  throws the \<open>TypeError\<close> of reading a property of \<open>undefined\<close>, not the error the classifier
  raises for unsupported types. This is the outcome for \<open>Array\<close>, \<open>ReadonlyArray\<close>, \<open>Set\<close>,
  \<open>Record\<close> and \<open>Map\<close> without type arguments, and for \<open>Record\<close> and \<open>Map\<close> with one type
  argument once that argument has been classified.
\<close>

theorem missing_type_argument_is_classified_as_undefined:
  assumes "firstMatch (typeAt c r) = Some HasSymbol"
  shows "fromType (Suc n) None l c = Throws TypeError
       \<and> (symbolName (typeAt c r) \<in> {''Array'', ''ReadonlyArray'', ''Set'', ''Record'', ''Map''}
            \<and> length (getTypeArguments c r) < 1 \<longrightarrow>
          at_index (getTypeArguments c r) 0 = None
          \<and> fromType (Suc (Suc n)) (Some r) l c = Throws TypeError)
       \<and> (symbolName (typeAt c r) \<in> {''Record'', ''Map''}
            \<and> length (getTypeArguments c r) = 1 \<longrightarrow>
          at_index (getTypeArguments c r) 1 = None
          \<and> (\<forall>k. fromType (Suc n) (at_index (getTypeArguments c r) 0) l c = Returns k \<longrightarrow>
                fromType (Suc (Suc n)) (Some r) l c = Throws TypeError))"
  by (auto simp: fromType_Symbol [OF assms] at_index_def)

theorem missing_type_argument_is_classified_as_undefined_witness:
  "firstMatch (typeAt exampleChecker 16) = Some HasSymbol
   \<and> symbolName (typeAt exampleChecker 16) = ''Array''
   \<and> getTypeArguments exampleChecker 16 = []
   \<and> fromType (Suc (Suc 0)) (Some 16) 0 exampleChecker = Throws TypeError
   \<and> firstMatch (typeAt exampleChecker 20) = Some HasSymbol
   \<and> symbolName (typeAt exampleChecker 20) = ''Record''
   \<and> getTypeArguments exampleChecker 20 = [0]
   \<and> fromType (Suc 0) (Some 0) 0 exampleChecker = Returns StringNode
   \<and> fromType (Suc (Suc 0)) (Some 20) 0 exampleChecker = Throws TypeError"
proof -
  have h16: "firstMatch (typeAt exampleChecker 16) = Some HasSymbol"
    and h20: "firstMatch (typeAt exampleChecker 20) = Some HasSymbol"
    by (simp_all add: example_defs)
  have a16: "symbolName (typeAt exampleChecker 16) = ''Array''"
    "getTypeArguments exampleChecker 16 = []"
    by (simp_all add: example_defs)
  have a20: "symbolName (typeAt exampleChecker 20) = ''Record''"
    "getTypeArguments exampleChecker 20 = [0]"
    "fromType (Suc 0) (Some 0) 0 exampleChecker = Returns StringNode"
    by (simp_all add: example_defs)
  from missing_type_argument_is_classified_as_undefined [OF h16, where n = 0 and l = 0] a16
  have r16: "fromType (Suc (Suc 0)) (Some 16) 0 exampleChecker = Throws TypeError"
    by simp
  have "fromType (Suc 0) (at_index (getTypeArguments exampleChecker 20) 0) 0 exampleChecker
          = Returns StringNode"
    using a20 by (simp add: at_index_def)
  with missing_type_argument_is_classified_as_undefined [OF h20, where n = 0 and l = 0] a20
  have r20: "fromType (Suc (Suc 0)) (Some 20) 0 exampleChecker = Throws TypeError"
    by simp
  from h16 h20 a16 a20 r16 r20 show ?thesis by blast
qed

subsection \<open>Termination on graphs of bounded nesting\<close>









subsection \<open>Where a thrown error comes from\<close>













subsection \<open>Elements of composite nodes\<close>

lemma nonEmptyElements_wrapOptional [simp]:
  "nonEmptyElements (wrapOptional p x) = nonEmptyElements x"
  by (simp add: wrapOptional_def)

lemma nonEmptyElements_primitive:
  "primitiveNode cap = Some node \<Longrightarrow> nonEmptyElements node"
  by (cases cap) auto

lemma filter_Boolean_member: "y \<in> set (filter_Boolean ys) \<longleftrightarrow> Some y \<in> set ys"
  by (induction ys rule: filter_Boolean.induct) auto

lemma set_property_subset: "set (set_property obj k v) \<subseteq> insert (k, v) (set obj)"
  by (induction obj) (auto split: if_splits)

lemma foldl_set_property_subset:
  "set (foldl (\<lambda>obj (k, v). set_property obj k v) obj es) \<subseteq> set obj \<union> set es"
proof (induction es arbitrary: obj)
  case Nil
  show ?case by simp
next
  case (Cons e es)
  obtain k v where e: "e = (k, v)" by (cases e)
  from Cons.IH [of "set_property obj k v"] set_property_subset [of obj k v]
  show ?case by (auto simp: e)
qed

lemma Object_fromEntries_subset: "set (Object_fromEntries es) \<subseteq> set es"
  using foldl_set_property_subset [of "[]" es]
  by (simp add: Object_fromEntries_def ownEntries_set)

lemma signatures_nonEmptyElements:
  assumes "getNodeFromCallSignatures n sigs l c = Returns (Some fn)"
    and sub: "\<And>t x. t \<in> set (concat (map (signatureTypes c l) sigs))
                \<Longrightarrow> fromType n t l c = Returns x \<Longrightarrow> nonEmptyElements x"
  shows "nonEmptyElements fn"
proof -
  let ?F = "\<lambda>s. andThen
              (array_map (\<lambda>p. fromType n (propertyType c l p) l c) (getParameters s))
              (\<lambda>parameters.
                 andThen (fromType n (returnType c s) l c)
                   (\<lambda>returnNode. Returns (FuncNode parameters returnNode)))"
  from assms(1) obtain nodes where ne: "sigs \<noteq> []"
    and nodes: "array_map ?F sigs = Returns nodes"
    and fn: "fn = (if length nodes = 1 then nodes ! 0 else UnionNode nodes)"
    by (auto simp: getNodeFromCallSignatures_eq andThen_Returns_iff split: if_splits)
  have each: "nonEmptyElements node" if "node \<in> set nodes" for node
  proof -
    from array_map_Returns_member [OF nodes that] obtain s where s: "s \<in> set sigs"
      and "?F s = Returns node" by blast
    then obtain ps ret where ps:
      "array_map (\<lambda>p. fromType n (propertyType c l p) l c) (getParameters s) = Returns ps"
      and ret: "fromType n (returnType c s) l c = Returns ret"
      and node: "node = FuncNode ps ret"
      by (auto simp: andThen_Returns_iff)
    have "nonEmptyElements x" if "x \<in> set ps" for x
    proof -
      from array_map_Returns_member [OF ps that] obtain p where
        "p \<in> set (getParameters s)" "fromType n (propertyType c l p) l c = Returns x"
        by blast
      with s show ?thesis
        by (intro sub [of "propertyType c l p" x]) (auto simp: signatureTypes_def)
    qed
    moreover from s ret have "nonEmptyElements ret"
      by (intro sub [of "returnType c s" ret]) (auto simp: signatureTypes_def)
    ultimately show ?thesis by (simp add: node)
  qed
  from array_map_Returns_length [OF nodes] ne have "nodes \<noteq> []" by auto
  with each show ?thesis
    by (cases nodes) (auto simp: fn)
qed

lemma nodes_nonEmptyElements:
  "visitsOnly n c l (hasElements c) ty \<Longrightarrow> fromType n ty l c = Returns node
   \<Longrightarrow> nonEmptyElements node"
proof (induction n arbitrary: ty node)
  case 0
  then show ?case by simp
next
  case (Suc n)
  show ?case
  proof (cases ty)
    case None
    with Suc.prems show ?thesis by simp
  next
    case (Some r)
    with Suc.prems have has: "hasElements c r"
      and below: "\<forall>t \<in> set (constituents c l r). visitsOnly n c l (hasElements c) t"
      and res: "fromType (Suc n) (Some r) l c = Returns node"
      by simp_all
    have sub: "nonEmptyElements x"
      if "t \<in> set (constituents c l r)" and "fromType n t l c = Returns x" for t x
      using Suc.IH [of t x] below that by blast
    show ?thesis
    proof (cases "typeAt c r" rule: firstMatch_cases)
      case (Primitive cap node')
      with res show ?thesis
        by (auto simp: fromType_Primitive dest: nonEmptyElements_primitive)
    next
      case Literal
      with res show ?thesis
        by (auto simp: fromType_Literal andThen_Returns_iff split: if_splits)
    next
      case Object
      show ?thesis
      proof (cases "isTupleReference c (typeAt c r)")
        case True
        note cs = constituents_Tuple [OF Object True, of l]
        from res obtain ys where ys:
          "array_map
             (\<lambda>p. if name p = ''length'' then Returns None
                  else andThen (fromType n (propertyType c l p) l c)
                         (\<lambda>node. Returns (Some (wrapOptional p node))))
             (getProperties (typeAt c r)) = Returns ys"
          and node: "node = TupleNode (filter_Boolean ys)"
          by (auto simp: fromType_Tuple [OF Object True] andThen_Returns_iff)
        from has Object True have
          "filter (\<lambda>p. name p \<noteq> ''length'') (getProperties (typeAt c r)) \<noteq> []"
          by (simp add: hasElements_def)
        with array_map_skip_length [OF ys] have "filter_Boolean ys \<noteq> []" by auto
        moreover have "nonEmptyElements y" if "y \<in> set (filter_Boolean ys)" for y
        proof -
          from that have "Some y \<in> set ys" by (simp add: filter_Boolean_member)
          from array_map_Returns_member [OF ys this] obtain p x where
            "p \<in> set (getProperties (typeAt c r))" "name p \<noteq> ''length''"
            "fromType n (propertyType c l p) l c = Returns x" "y = wrapOptional p x"
            by (auto simp: andThen_Returns_iff split: if_splits)
          with sub [of "propertyType c l p" x] show ?thesis by (simp add: cs)
        qed
        ultimately show ?thesis by (simp add: node)
      next
        case False
        note cs = constituents_Object [OF Object False, of l]
        from res obtain es where es:
          "array_map
             (\<lambda>p. andThen (fromType n (propertyType c l p) l c)
                    (\<lambda>node. Returns (name p, wrapOptional p node)))
             (getProperties (typeAt c r)) = Returns es"
          and k: "andThen (getNodeFromCallSignatures n (getCallSignatures (typeAt c r)) l c)
            (\<lambda>functionNode.
               case functionNode of
                 Some fn \<Rightarrow>
                   if es = [] then Returns fn
                   else Returns (IntersectionNode [fn, ObjectNode (Object_fromEntries es)])
               | None \<Rightarrow> Returns (ObjectNode (Object_fromEntries es))) = Returns node"
          by (auto simp: fromType_Object [OF Object False] andThen_Returns_iff)
        from k obtain fn where
          fn: "getNodeFromCallSignatures n (getCallSignatures (typeAt c r)) l c = Returns fn"
          and kk: "(case fn of
                 Some f \<Rightarrow>
                   if es = [] then Returns f
                   else Returns (IntersectionNode [f, ObjectNode (Object_fromEntries es)])
               | None \<Rightarrow> Returns (ObjectNode (Object_fromEntries es))) = Returns node"
          by (auto simp: andThen_Returns_iff)
        from kk have node: "node = (case fn of
                       Some f \<Rightarrow> if es = [] then f
                                 else IntersectionNode [f, ObjectNode (Object_fromEntries es)]
                     | None \<Rightarrow> ObjectNode (Object_fromEntries es))"
          by (cases fn; cases "es = []"; simp)
        have entry: "nonEmptyElements (snd e)" if "e \<in> set es" for e
        proof -
          from array_map_Returns_member [OF es that] obtain p x where
            "p \<in> set (getProperties (typeAt c r))"
            "fromType n (propertyType c l p) l c = Returns x" "e = (name p, wrapOptional p x)"
            by (auto simp: andThen_Returns_iff)
          with sub [of "propertyType c l p" x] show ?thesis by (simp add: cs)
        qed
        with Object_fromEntries_subset [of es]
        have obj: "nonEmptyElements (ObjectNode (Object_fromEntries es))" by auto
        show ?thesis
        proof (cases fn)
          case None
          with obj node show ?thesis by simp
        next
          case (Some f)
          have "nonEmptyElements f"
            using fn [unfolded Some]
          proof (rule signatures_nonEmptyElements)
            fix t x
            assume "t \<in> set (concat (map (signatureTypes c l) (getCallSignatures (typeAt c r))))"
              and "fromType n t l c = Returns x"
            then show "nonEmptyElements x"
              by (intro sub [of t x]) (simp_all add: cs)
          qed
          with obj node Some show ?thesis by simp
        qed
      qed
    next
      case (Symbol symbol)
      note cs = constituents_Symbol [OF Symbol(1), of l]
      have first: "nonEmptyElements x"
        if "fromType n (at_index (getTypeArguments c r) 0) l c = Returns x"
          and "symbolName (typeAt c r)
                 \<in> {''Array'', ''ReadonlyArray'', ''Set'', ''Record'', ''Map''}" for x
        using sub [of "at_index (getTypeArguments c r) 0" x] that by (auto simp: cs)
      have second: "nonEmptyElements x"
        if "fromType n (at_index (getTypeArguments c r) (Suc 0)) l c = Returns x"
          and "symbolName (typeAt c r) \<in> {''Record'', ''Map''}" for x
        using sub [of "at_index (getTypeArguments c r) 1" x] that by (auto simp: cs)
      from res show ?thesis
        by (auto simp: fromType_Symbol [OF Symbol(1)] andThen_Returns_iff
            intro: first second split: if_splits)
    next
      case Union
      from res obtain ys where
        ys: "array_map (\<lambda>t. fromType n (Some t) l c) (types (typeAt c r)) = Returns ys"
        and node: "node = UnionNode ys"
        by (auto simp: fromType_Union [OF Union] andThen_Returns_iff)
      from has Union array_map_Returns_length [OF ys] have "ys \<noteq> []"
        by (auto simp: hasElements_def)
      moreover have "nonEmptyElements y" if "y \<in> set ys" for y
        using array_map_Returns_member [OF ys that] sub
        by (auto simp: constituents_Union Union)
      ultimately show ?thesis by (simp add: node)
    next
      case Intersection
      from res obtain ys where
        ys: "array_map (\<lambda>t. fromType n (Some t) l c) (types (typeAt c r)) = Returns ys"
        and node: "node = IntersectionNode ys"
        by (auto simp: fromType_Intersection [OF Intersection] andThen_Returns_iff)
      from has Intersection array_map_Returns_length [OF ys] have "ys \<noteq> []"
        by (auto simp: hasElements_def)
      moreover have "nonEmptyElements y" if "y \<in> set ys" for y
        using array_map_Returns_member [OF ys that] sub
        by (auto simp: constituents_Union Intersection)
      ultimately show ?thesis by (simp add: node)
    next
      case Unmatched
      with res show ?thesis by (simp add: fromType_Unmatched)
    qed
  qed
qed

lemma signatures_shape:
  assumes "getNodeFromCallSignatures n sigs l c = Returns (Some fn)"
  shows "(length sigs = 1 \<and> (\<exists>args ret. fn = FuncNode args ret))
       \<or> (2 \<le> length sigs \<and> (\<exists>es. fn = UnionNode es \<and> length es = length sigs))"
proof -
  let ?F = "\<lambda>s. andThen
              (array_map (\<lambda>p. fromType n (propertyType c l p) l c) (getParameters s))
              (\<lambda>parameters.
                 andThen (fromType n (returnType c s) l c)
                   (\<lambda>returnNode. Returns (FuncNode parameters returnNode)))"
  from assms obtain nodes where ne: "sigs \<noteq> []"
    and nodes: "array_map ?F sigs = Returns nodes"
    and fn: "fn = (if length nodes = 1 then nodes ! 0 else UnionNode nodes)"
    by (auto simp: getNodeFromCallSignatures_eq andThen_Returns_iff split: if_splits)
  note len = array_map_Returns_length [OF nodes]
  show ?thesis
  proof (cases "length sigs = 1")
    case True
    with len have "nodes ! 0 \<in> set nodes" by simp
    from array_map_Returns_member [OF nodes this] obtain args ret where
      "FuncNode args ret = nodes ! 0"
      by (auto simp: andThen_Returns_iff)
    with True len fn show ?thesis by (auto dest: sym)
  next
    case False
    with ne have "2 \<le> length sigs" by (cases sigs) (auto simp: Suc_le_eq)
    with False len fn show ?thesis by simp
  qed
qed

lemma array_map_Returns_iff:
  "array_map f xs = Returns ys \<longleftrightarrow> list_all2 (\<lambda>x y. f x = Returns y) xs ys"
proof (induction xs arbitrary: ys)
  case Nil
  then show ?case by auto
next
  case (Cons x xs)
  then show ?case
    by (cases ys) (auto simp: andThen_Returns_iff)
qed

lemma array_map_skip_Returns_D:
  "array_map (\<lambda>p. if skip p then Returns None
                   else andThen (g p) (\<lambda>node. Returns (Some (h p node)))) ps = Returns ys
   \<Longrightarrow> list_all2 (\<lambda>p e. \<exists>x. g p = Returns x \<and> e = h p x)
         (filter (\<lambda>p. \<not> skip p) ps) (filter_Boolean ys)"
  by (induction ps arbitrary: ys) (auto simp: andThen_Returns_iff split: if_splits)

lemma array_map_skip_Returns_I:
  "list_all2 (\<lambda>p e. \<exists>x. g p = Returns x \<and> e = h p x) (filter (\<lambda>p. \<not> skip p) ps) es
   \<Longrightarrow> \<exists>ys. array_map (\<lambda>p. if skip p then Returns None
                   else andThen (g p) (\<lambda>node. Returns (Some (h p node)))) ps = Returns ys
          \<and> filter_Boolean ys = es"
proof (induction ps arbitrary: es)
  case Nil
  then show ?case by simp
next
  case (Cons p ps)
  show ?case
  proof (cases "skip p")
    case True
    with Cons.prems Cons.IH [of es] show ?thesis by (auto simp: andThen_Returns_iff)
  next
    case False
    with Cons.prems obtain x es' where es: "es = h p x # es'" and x: "g p = Returns x"
      and rest: "list_all2 (\<lambda>p e. \<exists>x. g p = Returns x \<and> e = h p x)
                   (filter (\<lambda>p. \<not> skip p) ps) es'"
      by (auto simp: list_all2_Cons1)
    from Cons.IH [OF rest] False es x show ?thesis by (auto simp: andThen_Returns_iff)
  qed
qed

lemma tuple_rule_Returns_iff:
  assumes "firstMatch (typeAt c r) = Some IsObject" and "isTupleReference c (typeAt c r)"
  shows "fromType (Suc n) (Some r) l c = Returns node \<longleftrightarrow>
           (\<exists>es. node = TupleNode es
               \<and> list_all2 (\<lambda>p e. \<exists>x. fromType n (propertyType c l p) l c = Returns x
                                        \<and> e = wrapOptional p x)
                     (filter (\<lambda>p. name p \<noteq> ''length'') (getProperties (typeAt c r))) es)"
  (is "?lhs \<longleftrightarrow> ?rhs")
proof
  assume ?lhs
  then obtain ys where ys:
      "array_map
         (\<lambda>p. if name p = ''length'' then Returns None
              else andThen (fromType n (propertyType c l p) l c)
                     (\<lambda>node. Returns (Some (wrapOptional p node))))
         (getProperties (typeAt c r)) = Returns ys"
    and node: "node = TupleNode (filter_Boolean ys)"
    by (auto simp: fromType_Tuple [OF assms] andThen_Returns_iff)
  from array_map_skip_Returns_D [OF ys] node show ?rhs by simp
next
  assume ?rhs
  then obtain es where node: "node = TupleNode es"
    and es: "list_all2 (\<lambda>p e. \<exists>x. fromType n (propertyType c l p) l c = Returns x
                                        \<and> e = wrapOptional p x)
                     (filter (\<lambda>p. \<not> name p = ''length'') (getProperties (typeAt c r))) es"
    by auto
  from array_map_skip_Returns_I [OF es] node show ?lhs
    by (auto simp: fromType_Tuple [OF assms] andThen_Returns_iff)
qed

lemma union_rule_Returns_iff:
  assumes "firstMatch (typeAt c r) = Some IsUnion"
  shows "fromType (Suc n) (Some r) l c = Returns node \<longleftrightarrow>
           (\<exists>es. node = UnionNode es
               \<and> list_all2 (\<lambda>t e. fromType n (Some t) l c = Returns e) (types (typeAt c r)) es)"
  by (auto simp: fromType_Union [OF assms] andThen_Returns_iff array_map_Returns_iff)

lemma intersection_rule_Returns_iff:
  assumes "firstMatch (typeAt c r) = Some IsIntersection"
  shows "fromType (Suc n) (Some r) l c = Returns node \<longleftrightarrow>
           (\<exists>es. node = IntersectionNode es
               \<and> list_all2 (\<lambda>t e. fromType n (Some t) l c = Returns e) (types (typeAt c r)) es)"
  by (auto simp: fromType_Intersection [OF assms] andThen_Returns_iff array_map_Returns_iff)

lemma tuple_rule_empty:
  assumes "firstMatch (typeAt c r) = Some IsObject" and "isTupleReference c (typeAt c r)"
    and "filter (\<lambda>p. name p \<noteq> ''length'') (getProperties (typeAt c r)) = []"
  shows "fromType (Suc n) (Some r) l c = Returns (TupleNode [])"
  by (simp add: tuple_rule_Returns_iff [OF assms(1,2)] assms(3))

lemma union_rule_empty:
  assumes "firstMatch (typeAt c r) = Some IsUnion" and "types (typeAt c r) = []"
  shows "fromType (Suc n) (Some r) l c = Returns (UnionNode [])"
  by (simp add: union_rule_Returns_iff [OF assms(1)] assms(2))

lemma intersection_rule_empty:
  assumes "firstMatch (typeAt c r) = Some IsIntersection" and "types (typeAt c r) = []"
  shows "fromType (Suc n) (Some r) l c = Returns (IntersectionNode [])"
  by (simp add: intersection_rule_Returns_iff [OF assms(1)] assms(2))

text \<open>
  C9 (as amended). The classifier hands each builder exactly the elements it has classified
  and does not look at how many there are. A call on a tuple reference returns a node exactly
  when every member other than \<open>length\<close> classifies to a node, and the node is then the
  tuple of these nodes, in order, each wrapped in \<open>optional\<close> where the member is optional;
  a call on a union or intersection type returns a node exactly when every constituent
  classifies to a node, and the node is then the union or intersection of these nodes, in
  order. In particular a tuple reference with no member other than \<open>length\<close> yields the
  tuple of the empty list, and a union or intersection type without constituents yields the
  union or intersection of the empty list: there is no emptiness check. The signature
  converter calls no builder for no signature, and builds a union only from two or more
  signatures. So every tuple, union and intersection node in a returned node has at least
  one element provided that every tuple reference the classification visits has a member
  other than \<open>length\<close> and every union or intersection type it visits has a constituent.
  \<open>optional\<close> wraps a single node by construction.
\<close>

theorem composite_nodes_have_the_elements_of_their_types:
  "(visitsOnly n c l (hasElements c) ty \<and> fromType n ty l c = Returns node \<longrightarrow>
      nonEmptyElements node)
   \<and> (firstMatch (typeAt c r) = Some IsObject \<and> isTupleReference c (typeAt c r)
        \<and> fromType (Suc n) (Some r) l c = Returns node \<longrightarrow>
      (\<exists>es. node = TupleNode es
         \<and> length es
             = length (filter (\<lambda>p. name p \<noteq> ''length'') (getProperties (typeAt c r)))))
   \<and> (firstMatch (typeAt c r) = Some IsUnion
        \<and> fromType (Suc n) (Some r) l c = Returns node \<longrightarrow>
      (\<exists>es. node = UnionNode es \<and> length es = length (types (typeAt c r))))
   \<and> (firstMatch (typeAt c r) = Some IsIntersection
        \<and> fromType (Suc n) (Some r) l c = Returns node \<longrightarrow>
      (\<exists>es. node = IntersectionNode es \<and> length es = length (types (typeAt c r))))
   \<and> (getNodeFromCallSignatures n sigs l c = Returns (Some node) \<longrightarrow>
      (length sigs = 1 \<and> (\<exists>args ret. node = FuncNode args ret))
      \<or> (2 \<le> length sigs \<and> (\<exists>es. node = UnionNode es \<and> length es = length sigs)))
   \<and> (firstMatch (typeAt c r) = Some IsObject \<and> isTupleReference c (typeAt c r) \<longrightarrow>
      (fromType (Suc n) (Some r) l c = Returns node \<longleftrightarrow>
         (\<exists>es. node = TupleNode es
            \<and> list_all2 (\<lambda>p e. \<exists>x. fromType n (propertyType c l p) l c = Returns x
                                     \<and> e = wrapOptional p x)
                  (filter (\<lambda>p. name p \<noteq> ''length'') (getProperties (typeAt c r))) es)))
   \<and> (firstMatch (typeAt c r) = Some IsUnion \<longrightarrow>
      (fromType (Suc n) (Some r) l c = Returns node \<longleftrightarrow>
         (\<exists>es. node = UnionNode es
            \<and> list_all2 (\<lambda>t e. fromType n (Some t) l c = Returns e)
                  (types (typeAt c r)) es)))
   \<and> (firstMatch (typeAt c r) = Some IsIntersection \<longrightarrow>
      (fromType (Suc n) (Some r) l c = Returns node \<longleftrightarrow>
         (\<exists>es. node = IntersectionNode es
            \<and> list_all2 (\<lambda>t e. fromType n (Some t) l c = Returns e)
                  (types (typeAt c r)) es)))
   \<and> (firstMatch (typeAt c r) = Some IsObject \<and> isTupleReference c (typeAt c r)
        \<and> filter (\<lambda>p. name p \<noteq> ''length'') (getProperties (typeAt c r)) = [] \<longrightarrow>
      fromType (Suc n) (Some r) l c = Returns (TupleNode []))
   \<and> (firstMatch (typeAt c r) = Some IsUnion \<and> types (typeAt c r) = [] \<longrightarrow>
      fromType (Suc n) (Some r) l c = Returns (UnionNode []))
   \<and> (firstMatch (typeAt c r) = Some IsIntersection \<and> types (typeAt c r) = [] \<longrightarrow>
      fromType (Suc n) (Some r) l c = Returns (IntersectionNode []))
   \<and> getNodeFromCallSignatures n [] l c = Returns None"
proof -
  have nonEmpty: "visitsOnly n c l (hasElements c) ty \<and> fromType n ty l c = Returns node \<longrightarrow>
      nonEmptyElements node"
    by (blast intro: nodes_nonEmptyElements)
  have tupleIff: "firstMatch (typeAt c r) = Some IsObject \<and> isTupleReference c (typeAt c r) \<longrightarrow>
      (fromType (Suc n) (Some r) l c = Returns node \<longleftrightarrow>
         (\<exists>es. node = TupleNode es
            \<and> list_all2 (\<lambda>p e. \<exists>x. fromType n (propertyType c l p) l c = Returns x
                                     \<and> e = wrapOptional p x)
                  (filter (\<lambda>p. name p \<noteq> ''length'') (getProperties (typeAt c r))) es))"
    using tuple_rule_Returns_iff [of c r n l node] by blast
  have unionIff: "firstMatch (typeAt c r) = Some IsUnion \<longrightarrow>
      (fromType (Suc n) (Some r) l c = Returns node \<longleftrightarrow>
         (\<exists>es. node = UnionNode es
            \<and> list_all2 (\<lambda>t e. fromType n (Some t) l c = Returns e)
                  (types (typeAt c r)) es))"
    using union_rule_Returns_iff [of c r n l node] by blast
  have intersectionIff: "firstMatch (typeAt c r) = Some IsIntersection \<longrightarrow>
      (fromType (Suc n) (Some r) l c = Returns node \<longleftrightarrow>
         (\<exists>es. node = IntersectionNode es
            \<and> list_all2 (\<lambda>t e. fromType n (Some t) l c = Returns e)
                  (types (typeAt c r)) es))"
    using intersection_rule_Returns_iff [of c r n l node] by blast
  have tupleLength: "firstMatch (typeAt c r) = Some IsObject \<and> isTupleReference c (typeAt c r)
        \<and> fromType (Suc n) (Some r) l c = Returns node \<longrightarrow>
      (\<exists>es. node = TupleNode es
         \<and> length es
             = length (filter (\<lambda>p. name p \<noteq> ''length'') (getProperties (typeAt c r))))"
    using tupleIff by (auto dest: list_all2_lengthD)
  have unionLength: "firstMatch (typeAt c r) = Some IsUnion
        \<and> fromType (Suc n) (Some r) l c = Returns node \<longrightarrow>
      (\<exists>es. node = UnionNode es \<and> length es = length (types (typeAt c r)))"
    using unionIff by (auto dest: list_all2_lengthD)
  have intersectionLength: "firstMatch (typeAt c r) = Some IsIntersection
        \<and> fromType (Suc n) (Some r) l c = Returns node \<longrightarrow>
      (\<exists>es. node = IntersectionNode es \<and> length es = length (types (typeAt c r)))"
    using intersectionIff by (auto dest: list_all2_lengthD)
  have signatures: "getNodeFromCallSignatures n sigs l c = Returns (Some node) \<longrightarrow>
      (length sigs = 1 \<and> (\<exists>args ret. node = FuncNode args ret))
      \<or> (2 \<le> length sigs \<and> (\<exists>es. node = UnionNode es \<and> length es = length sigs))"
    by (blast dest: signatures_shape)
  have tupleEmpty: "firstMatch (typeAt c r) = Some IsObject \<and> isTupleReference c (typeAt c r)
        \<and> filter (\<lambda>p. name p \<noteq> ''length'') (getProperties (typeAt c r)) = [] \<longrightarrow>
      fromType (Suc n) (Some r) l c = Returns (TupleNode [])"
    by (blast intro: tuple_rule_empty)
  have unionEmpty: "firstMatch (typeAt c r) = Some IsUnion \<and> types (typeAt c r) = [] \<longrightarrow>
      fromType (Suc n) (Some r) l c = Returns (UnionNode [])"
    by (blast intro: union_rule_empty)
  have intersectionEmpty:
    "firstMatch (typeAt c r) = Some IsIntersection \<and> types (typeAt c r) = [] \<longrightarrow>
      fromType (Suc n) (Some r) l c = Returns (IntersectionNode [])"
    by (blast intro: intersection_rule_empty)
  have noSignature: "getNodeFromCallSignatures n [] l c = Returns None"
    by (simp add: getNodeFromCallSignatures_eq)
  from nonEmpty tupleLength unionLength intersectionLength signatures tupleIff unionIff
    intersectionIff tupleEmpty unionEmpty intersectionEmpty noSignature
  show ?thesis by (intro conjI)
qed

theorem composite_nodes_have_the_elements_of_their_types_witness:
  "visitsOnly (Suc (Suc 0)) exampleChecker 0 (hasElements exampleChecker) (Some 3)
   \<and> fromType (Suc (Suc 0)) (Some 3) 0 exampleChecker
       = Returns (TupleNode [StringNode, OptionalNode NumberNode])
   \<and> nonEmptyElements (TupleNode [StringNode, OptionalNode NumberNode])
   \<and> firstMatch (typeAt exampleChecker 18) = Some IsObject
   \<and> isTupleReference exampleChecker (typeAt exampleChecker 18)
   \<and> filter (\<lambda>p. name p \<noteq> ''length'') (getProperties (typeAt exampleChecker 18)) = []
   \<and> fromType (Suc (Suc 0)) (Some 18) 0 exampleChecker = Returns (TupleNode [])
   \<and> firstMatch (typeAt exampleChecker 9) = Some IsUnion
   \<and> types (typeAt exampleChecker 9) = [10, 11]
   \<and> fromType (Suc 0) (Some 10) 0 exampleChecker = Returns (LiteralNode (JsString ''x''))
   \<and> fromType (Suc 0) (Some 11) 0 exampleChecker = Returns (LiteralNode (JsString ''y''))
   \<and> fromType (Suc (Suc 0)) (Some 9) 0 exampleChecker
       = Returns (UnionNode [LiteralNode (JsString ''x''), LiteralNode (JsString ''y'')])"
proof -
  note claim = composite_nodes_have_the_elements_of_their_types
  have h: "visitsOnly (Suc (Suc 0)) exampleChecker 0 (hasElements exampleChecker) (Some 3)"
    by (simp add: example_defs hasElements_def)
  have res: "fromType (Suc (Suc 0)) (Some 3) 0 exampleChecker
       = Returns (TupleNode [StringNode, OptionalNode NumberNode])"
    by (simp add: example_defs)
  from claim [where n = "Suc (Suc 0)" and c = exampleChecker and l = 0 and ty = "Some 3"
            and node = "TupleNode [StringNode, OptionalNode NumberNode]", THEN conjunct1] h res
  have ne: "nonEmptyElements (TupleNode [StringNode, OptionalNode NumberNode])"
    by blast
  have t18: "firstMatch (typeAt exampleChecker 18) = Some IsObject"
    "isTupleReference exampleChecker (typeAt exampleChecker 18)"
    "filter (\<lambda>p. name p \<noteq> ''length'') (getProperties (typeAt exampleChecker 18)) = []"
    by (simp_all add: example_defs)
  note claim [where n = "Suc 0" and c = exampleChecker and l = 0 and r = 18,
      THEN conjunct2, THEN conjunct2, THEN conjunct2, THEN conjunct2, THEN conjunct2,
      THEN conjunct2, THEN conjunct2, THEN conjunct2, THEN conjunct1]
  with t18 have e18: "fromType (Suc (Suc 0)) (Some 18) 0 exampleChecker = Returns (TupleNode [])"
    by blast
  have t9: "firstMatch (typeAt exampleChecker 9) = Some IsUnion"
    "types (typeAt exampleChecker 9) = [10, 11]"
    "fromType (Suc 0) (Some 10) 0 exampleChecker = Returns (LiteralNode (JsString ''x''))"
    "fromType (Suc 0) (Some 11) 0 exampleChecker = Returns (LiteralNode (JsString ''y''))"
    by (simp_all add: example_defs)
  note claim [where n = "Suc 0" and c = exampleChecker and l = 0 and r = 9
      and node = "UnionNode [LiteralNode (JsString ''x''), LiteralNode (JsString ''y'')]",
      THEN conjunct2, THEN conjunct2, THEN conjunct2, THEN conjunct2, THEN conjunct2,
      THEN conjunct2, THEN conjunct1]
  with t9 have e9: "fromType (Suc (Suc 0)) (Some 9) 0 exampleChecker
       = Returns (UnionNode [LiteralNode (JsString ''x''), LiteralNode (JsString ''y'')])"
    by simp
  from h res ne t18 e18 t9 e9 show ?thesis by (intro conjI)
qed

text \<open>
  C9, the claim as stated, fails on the empty tuple type of the example program, a tuple
  reference whose only member is \<open>length\<close>: the tuple builder receives the empty list.
\<close>

theorem empty_tuple_reaches_the_tuple_builder:
  "firstMatch (typeAt exampleChecker 18) = Some IsObject
   \<and> isTupleReference exampleChecker (typeAt exampleChecker 18)
   \<and> map name (getProperties (typeAt exampleChecker 18)) = [''length'']
   \<and> fromType (Suc 0) (Some 18) 0 exampleChecker = Returns (TupleNode [])
   \<and> \<not> nonEmptyElements (TupleNode [])"
  by (simp add: example_defs)

subsection \<open>Only the first capability matters\<close>

lemmas flag_values =
  hasFlag_def TypeFlags_Any_def TypeFlags_Unknown_def TypeFlags_String_def
  TypeFlags_Number_def TypeFlags_Boolean_def TypeFlags_BigInt_def TypeFlags_Object_def

lemma keepOnly_fields:
  "getProperties (keepOnly cap T) = getProperties T"
  "getCallSignatures (keepOnly cap T) = getCallSignatures T"
  "objectFlags (keepOnly cap T) = objectFlags T"
  "target (keepOnly cap T) = target T"
  "types (keepOnly cap T) = types T"
  "literalValue (keepOnly cap T) = literalValue T"
  by (cases cap; simp add: clearCapabilities_def)+

lemma firstMatchOnly_fields:
  "getProperties (firstMatchOnly T) = getProperties T"
  "getCallSignatures (firstMatchOnly T) = getCallSignatures T"
  "objectFlags (firstMatchOnly T) = objectFlags T"
  "target (firstMatchOnly T) = target T"
  "types (firstMatchOnly T) = types T"
  "literalValue (firstMatchOnly T) = literalValue T"
  by (simp_all add: firstMatchOnly_def keepOnly_fields clearCapabilities_def
      split: option.split)

lemma firstMatch_keepOnly:
  "cap \<noteq> HasSymbol \<or> getSymbol T \<noteq> None \<Longrightarrow> firstMatch (keepOnly cap T) = Some cap"
  by (cases cap) (auto simp: firstMatch_chain clearCapabilities_def flag_values)

lemma firstMatch_firstMatchOnly: "firstMatch (firstMatchOnly T) = firstMatch T"
proof (cases "firstMatch T")
  case None
  then show ?thesis
    by (simp add: firstMatchOnly_def firstMatch_chain clearCapabilities_def flag_values)
next
  case (Some cap)
  then have "cap \<noteq> HasSymbol \<or> getSymbol T \<noteq> None"
    by (auto simp: firstMatch_iff)
  from firstMatch_keepOnly [OF this] Some show ?thesis
    by (simp add: firstMatchOnly_def)
qed

lemma symbolName_firstMatchOnly:
  "firstMatch T = Some HasSymbol \<Longrightarrow> symbolName (firstMatchOnly T) = symbolName T"
  by (simp add: firstMatchOnly_def symbolName_def clearCapabilities_def)

lemma firstMatchOnly_checker:
  "typeAt (c\<lparr>typeAt := \<lambda>r. firstMatchOnly (typeAt c r)\<rparr>) r = firstMatchOnly (typeAt c r)"
  "getTypeArguments (c\<lparr>typeAt := \<lambda>r. firstMatchOnly (typeAt c r)\<rparr>) = getTypeArguments c"
  "typeToString (c\<lparr>typeAt := \<lambda>r. firstMatchOnly (typeAt c r)\<rparr>) = typeToString c"
  "propertyType (c\<lparr>typeAt := \<lambda>r. firstMatchOnly (typeAt c r)\<rparr>) = propertyType c"
  "returnType (c\<lparr>typeAt := \<lambda>r. firstMatchOnly (typeAt c r)\<rparr>) = returnType c"
  by (simp_all add: propertyType_def returnType_def fun_eq_iff)

lemma isTupleReference_firstMatchOnly:
  "isTupleReference (c\<lparr>typeAt := \<lambda>r. firstMatchOnly (typeAt c r)\<rparr>) (firstMatchOnly T)
     = isTupleReference c T"
  by (simp add: isTupleReference_def hasObjectFlag_def firstMatchOnly_fields)

lemma fromType_firstMatchOnly:
  "fromType n ty l (c\<lparr>typeAt := \<lambda>r. firstMatchOnly (typeAt c r)\<rparr>) = fromType n ty l c"
proof (induction n arbitrary: ty)
  case 0
  show ?case by simp
next
  case (Suc n)
  let ?c = "c\<lparr>typeAt := \<lambda>r. firstMatchOnly (typeAt c r)\<rparr>"
  note fields = firstMatchOnly_checker firstMatchOnly_fields
  have sigs: "getNodeFromCallSignatures n sigs l ?c = getNodeFromCallSignatures n sigs l c"
    for sigs
    by (simp only: getNodeFromCallSignatures_eq Suc.IH firstMatchOnly_checker)
  show ?case
  proof (cases ty)
    case None
    then show ?thesis by simp
  next
    case (Some r)
    have fm: "firstMatch (typeAt ?c r) = firstMatch (typeAt c r)"
      by (simp only: firstMatchOnly_checker firstMatch_firstMatchOnly)
    have tup: "isTupleReference ?c (typeAt ?c r) = isTupleReference c (typeAt c r)"
      by (simp only: firstMatchOnly_checker(1) isTupleReference_firstMatchOnly)
    show ?thesis
    proof (cases "typeAt c r" rule: firstMatch_cases)
      case (Primitive cap node)
      with fm have "firstMatch (typeAt ?c r) = Some cap" by simp
      with Primitive Some show ?thesis by (simp only: fromType_Primitive)
    next
      case Literal
      with fm have "firstMatch (typeAt ?c r) = Some IsLiteral" by simp
      with Literal Some show ?thesis by (simp only: fromType_Literal fields)
    next
      case Object
      with fm have o: "firstMatch (typeAt ?c r) = Some IsObject" by simp
      show ?thesis
      proof (cases "isTupleReference c (typeAt c r)")
        case True
        with tup have "isTupleReference ?c (typeAt ?c r)" by simp
        from fromType_Tuple [OF o this] fromType_Tuple [OF Object True] Some
        show ?thesis by (simp only: fields Suc.IH)
      next
        case False
        with tup have "\<not> isTupleReference ?c (typeAt ?c r)" by simp
        from fromType_Object [OF o this] fromType_Object [OF Object False] Some
        show ?thesis by (simp only: fields Suc.IH sigs)
      qed
    next
      case (Symbol symbol)
      with fm have s: "firstMatch (typeAt ?c r) = Some HasSymbol" by simp
      note name = symbolName_firstMatchOnly [OF Symbol(1)]
      from fromType_Symbol [OF s] fromType_Symbol [OF Symbol(1)] Some
      show ?thesis by (simp only: unknownSymbolError_def fields name Suc.IH)
    next
      case Union
      with fm have "firstMatch (typeAt ?c r) = Some IsUnion" by simp
      from fromType_Union [OF this] fromType_Union [OF Union] Some
      show ?thesis by (simp only: fields Suc.IH)
    next
      case Intersection
      with fm have "firstMatch (typeAt ?c r) = Some IsIntersection" by simp
      from fromType_Intersection [OF this] fromType_Intersection [OF Intersection] Some
      show ?thesis by (simp only: fields Suc.IH)
    next
      case Unmatched
      with fm have "firstMatch (typeAt ?c r) = None" by simp
      from fromType_Unmatched [OF this] fromType_Unmatched [OF Unmatched] Some
      show ?thesis by (simp only: unknownTypeError_def fields)
    qed
  qed
qed

lemma only_capability_is_firstMatch:
  assumes "\<forall>cap'. has_capability T cap' \<longleftrightarrow> cap' = cap"
  shows "firstMatch T = Some cap"
proof -
  from assms have
    "has_capability T IsString \<longleftrightarrow> IsString = cap"
    "has_capability T IsNumber \<longleftrightarrow> IsNumber = cap"
    "has_capability T IsBoolean \<longleftrightarrow> IsBoolean = cap"
    "has_capability T IsUnknown \<longleftrightarrow> IsUnknown = cap"
    "has_capability T IsLiteral \<longleftrightarrow> IsLiteral = cap"
    "has_capability T IsAny \<longleftrightarrow> IsAny = cap"
    "has_capability T IsBigInt \<longleftrightarrow> IsBigInt = cap"
    "has_capability T IsObject \<longleftrightarrow> IsObject = cap"
    "has_capability T HasSymbol \<longleftrightarrow> HasSymbol = cap"
    "has_capability T IsUnion \<longleftrightarrow> IsUnion = cap"
    "has_capability T IsIntersection \<longleftrightarrow> IsIntersection = cap"
    by blast+
  then show ?thesis
    by (cases cap) (simp_all add: firstMatch_chain)
qed

text \<open>
  C5. Classification dispatches on the first capability a type has in the documented
  order (string, number, boolean, unknown, literal, any, bigint, object, nominal symbol,
  union, intersection): the outcome is the same when every type is stripped of all its
  capabilities but that first one, and a type whose first capability is a primitive one
  yields the matching primitive node. In particular a type with exactly one recognized
  capability, a primitive one, yields the matching primitive node and nothing else.
\<close>

theorem dispatch_follows_documented_order:
  "documentedOrder =
     [IsString, IsNumber, IsBoolean, IsUnknown, IsLiteral, IsAny, IsBigInt,
      IsObject, HasSymbol, IsUnion, IsIntersection]
   \<and> fromType n ty l (c\<lparr>typeAt := \<lambda>r. firstMatchOnly (typeAt c r)\<rparr>) = fromType n ty l c
   \<and> (find (has_capability (typeAt c r)) documentedOrder = Some cap
        \<and> primitiveNode cap = Some node \<longrightarrow>
      fromType (Suc n) (Some r) l c = Returns node)
   \<and> ((\<forall>cap'. has_capability (typeAt c r) cap' \<longleftrightarrow> cap' = cap)
        \<and> primitiveNode cap = Some node \<longrightarrow>
      fromType (Suc n) (Some r) l c = Returns node)"
proof (intro conjI impI)
  show "documentedOrder =
     [IsString, IsNumber, IsBoolean, IsUnknown, IsLiteral, IsAny, IsBigInt,
      IsObject, HasSymbol, IsUnion, IsIntersection]"
    by (rule documentedOrder_def)
next
  show "fromType n ty l (c\<lparr>typeAt := \<lambda>r. firstMatchOnly (typeAt c r)\<rparr>) = fromType n ty l c"
    by (rule fromType_firstMatchOnly)
next
  assume "find (has_capability (typeAt c r)) documentedOrder = Some cap
        \<and> primitiveNode cap = Some node"
  then show "fromType (Suc n) (Some r) l c = Returns node"
    by (simp add: fromType_Primitive firstMatch_def)
next
  assume a: "(\<forall>cap'. has_capability (typeAt c r) cap' \<longleftrightarrow> cap' = cap)
        \<and> primitiveNode cap = Some node"
  then have "firstMatch (typeAt c r) = Some cap"
    by (intro only_capability_is_firstMatch) simp
  with a show "fromType (Suc n) (Some r) l c = Returns node"
    by (simp add: fromType_Primitive)
qed

theorem dispatch_follows_documented_order_witness:
  "find (has_capability (typeAt exampleChecker 25)) documentedOrder = Some IsBoolean
   \<and> has_capability (typeAt exampleChecker 25) IsUnion
   \<and> primitiveNode IsBoolean = Some BooleanNode
   \<and> fromType (Suc 0) (Some 25) 0 exampleChecker = Returns BooleanNode
   \<and> (\<forall>cap'. has_capability (typeAt exampleChecker 21) cap' \<longleftrightarrow> cap' = IsAny)
   \<and> primitiveNode IsAny = Some AnyTypeNode
   \<and> fromType (Suc 0) (Some 21) 0 exampleChecker = Returns AnyTypeNode"
proof -
  note claim = dispatch_follows_documented_order
  have a25: "find (has_capability (typeAt exampleChecker 25)) documentedOrder = Some IsBoolean"
    "has_capability (typeAt exampleChecker 25) IsUnion"
    "primitiveNode IsBoolean = Some BooleanNode"
    by (simp_all add: example_defs documentedOrder_def)
  have only: "has_capability (typeAt exampleChecker 21) cap' \<longleftrightarrow> cap' = IsAny" for cap'
    by (cases cap') (simp_all add: example_defs)
  then have a21: "\<forall>cap'. has_capability (typeAt exampleChecker 21) cap' \<longleftrightarrow> cap' = IsAny"
    "primitiveNode IsAny = Some AnyTypeNode"
    by simp_all
  from claim [where c = exampleChecker and r = 25 and cap = IsBoolean and node = BooleanNode
                and n = 0 and l = 0] a25
  have r25: "fromType (Suc 0) (Some 25) 0 exampleChecker = Returns BooleanNode"
    by blast
  from claim [where c = exampleChecker and r = 21 and cap = IsAny and node = AnyTypeNode
                and n = 0 and l = 0] a21
  have r21: "fromType (Suc 0) (Some 21) 0 exampleChecker = Returns AnyTypeNode"
    by blast
  from a25 a21 r25 r21 show ?thesis by blast
qed

end
